theory Spec2Isabelle
  imports Main "HOL-Library.Word" "HOL-Library.Monad_Syntax"
begin

unbundle bit_operations_syntax

section \<open>Machine words, pointers and compile-time constants\<close>

text \<open>
  Pointers and \<open>uint64_t\<close>/\<open>size_t\<close> values are 64-bit words; pointer arithmetic wraps
  as the machine's does. The null pointer is the word 0.
\<close>

type_synonym u64 = "64 word"
type_synonym ptr = "64 word"

abbreviation nullptr :: ptr where
  "nullptr \<equiv> 0"

text \<open>lrmichael.h: \<open>#define CREDITS_MAX (1ULL << 6)\<close> and \<open>CREDITS_MASK ((1ULL << 6) - 1)\<close>.\<close>

definition CREDITS_MAX :: u64 where
  "CREDITS_MAX = push_bit 6 1"

definition CREDITS_MASK :: u64 where
  "CREDITS_MASK = push_bit 6 1 - 1"

text \<open>
  Modelled from the spec: \<open>defines.h\<close> is not among the sources. The spec fixes
  \<open>DESCRIPTOR_BLOCK_SZ = 16 * PAGE\<close> at 64 KiB, so \<open>PAGE\<close> is 4096, and descriptors are
  aligned to a 64-byte cache line.
\<close>

definition LG_PAGE :: nat where
  "LG_PAGE = 12"

definition PAGE :: u64 where
  "PAGE = push_bit LG_PAGE 1"

definition PAGE_MASK :: u64 where
  "PAGE_MASK = PAGE - 1"

definition CACHELINE :: u64 where
  "CACHELINE = 64"

text \<open>lrmichael.h: \<open>#define DESCRIPTOR_BLOCK_SZ (16 * PAGE)\<close>.\<close>

definition DESCRIPTOR_BLOCK_SZ :: u64 where
  "DESCRIPTOR_BLOCK_SZ = 16 * PAGE"

text \<open>
  Modelled from the spec: the macros \<open>ALIGN_ADDR\<close> and \<open>PAGE_CEILING\<close> of \<open>defines.h\<close>
  are missing; the spec says that the user pointer is aligned up and that the size of a
  large allocation is rounded to pages. Both round up to a multiple of a power of two.
\<close>

definition ALIGN_ADDR :: "u64 \<Rightarrow> u64 \<Rightarrow> u64" where
  "ALIGN_ADDR addr align = (addr + (align - 1)) AND NOT (align - 1)"

definition PAGE_CEILING :: "u64 \<Rightarrow> u64" where
  "PAGE_CEILING sz = (sz + (PAGE - 1)) AND NOT (PAGE - 1)"

text \<open>
  \<open>sizeof(Descriptor)\<close>: the fields take 72 bytes (two 16-byte nodes and five 8-byte
  words) and the struct is aligned to \<open>CACHELINE\<close>, so its size is 128.
\<close>

definition sizeof_Descriptor :: u64 where
  "sizeof_Descriptor = 128"

text \<open>\<open>errno.h\<close>: the two error codes of \<open>posix_memalign\<close>.\<close>

definition ENOMEM :: int where
  "ENOMEM = 12"

definition EINVAL :: int where
  "EINVAL = 22"

section \<open>Data model (lrmichael.h)\<close>

datatype SuperblockState = SB_ACTIVE | SB_FULL | SB_PARTIAL | SB_EMPTY

text \<open>
  \<open>struct Anchor\<close> is a packed 64-bit word of bit-fields: \<open>state : 2\<close>, \<open>avail : 25\<close>,
  \<open>count : 25\<close>, \<open>tag : 12\<close>. An assignment to a field truncates to the field's width.
\<close>

record Anchor =
  state :: SuperblockState
  avail :: "25 word"
  count :: "25 word"
  tag :: "12 word"

record DescriptorNode =
  desc :: ptr
  counter :: u64

text \<open>
  Modelled from the spec: \<open>size_classes.h\<close> is missing. A size class gives the block size,
  the superblock size and the number of blocks of a superblock (\<open>GetBlockNum()\<close>).
\<close>

record SizeClassData =
  sc_blockSize :: u64
  sbSize :: u64
  blockNum :: u64

text \<open>
  A \<open>ProcHeap*\<close> is the address of an element of the global array \<open>Heaps\<close>: it is modelled
  by the element's index, and the null heap of a large allocation by \<open>None\<close>.
\<close>

record Descriptor =
  nextFree :: DescriptorNode
  nextPartial :: DescriptorNode
  anchor :: Anchor
  superblock :: ptr
  heap :: "nat option"
  blockSize :: u64
  maxcount :: u64

record ProcHeap =
  active :: ptr
  partialList :: DescriptorNode
  sizeclass :: SizeClassData

text \<open>
  Modelled from the spec: the page provider (\<open>pages.h\<close>) is an external collaborator.
  \<open>page_supply\<close> lists the regions its next calls of \<open>PageAlloc\<close> return (null once the
  list is used up: out of memory), and \<open>page_calls\<close> records every call made to it.
\<close>

datatype page_call = PageAlloc_call u64 ptr | PageFree_call ptr u64

text \<open>
  The state all threads share: the global descriptor recycle list \<open>AvailDesc\<close>, the
  descriptors by address, \<open>MallocInit\<close> and \<open>Heaps\<close>, the bytes of memory, the page map
  (page number to descriptor) and the page provider.
\<close>

record machine =
  AvailDesc :: DescriptorNode
  descs :: "ptr \<Rightarrow> Descriptor"
  MallocInit :: bool
  Heaps :: "nat \<Rightarrow> ProcHeap"
  mem :: "ptr \<Rightarrow> 8 word"
  sPageMap :: "u64 \<Rightarrow> ptr"
  page_supply :: "ptr list"
  page_calls :: "page_call list"

text \<open>
  Modelled from the spec: the size-class table. \<open>GetSizeClass\<close> maps a size to a class
  index (0: too large), \<open>SizeClasses\<close> is the table \<open>InitSizeClass\<close> fills, \<open>MAX_SZ_IDX\<close>
  the number of classes. They are parameters of the model.
\<close>

record platform =
  GetSizeClass :: "u64 \<Rightarrow> nat"
  SizeClasses :: "nat \<Rightarrow> SizeClassData"
  MAX_SZ_IDX :: nat

definition upd_desc :: "ptr \<Rightarrow> (Descriptor \<Rightarrow> Descriptor) \<Rightarrow> machine \<Rightarrow> machine" where
  "upd_desc d f s = s\<lparr>descs := (descs s)(d := f (descs s d))\<rparr>"

definition upd_heap :: "nat \<Rightarrow> (ProcHeap \<Rightarrow> ProcHeap) \<Rightarrow> machine \<Rightarrow> machine" where
  "upd_heap h f s = s\<lparr>Heaps := (Heaps s)(h := f (Heaps s h))\<rparr>"

section \<open>Memory\<close>

text \<open>
  Memory is an array of bytes. \<open>*(uint64_t*)p\<close> reads and writes the eight bytes from
  \<open>p\<close>, least significant first; \<open>memcpy\<close> and \<open>memset\<close> write a run of bytes.
\<close>

definition store_bytes :: "(ptr \<Rightarrow> 8 word) \<Rightarrow> ptr \<Rightarrow> 8 word list \<Rightarrow> (ptr \<Rightarrow> 8 word)" where
  "store_bytes m a bs = (\<lambda>x. if unat (x - a) < length bs then bs ! unat (x - a) else m x)"

definition load_bytes :: "(ptr \<Rightarrow> 8 word) \<Rightarrow> ptr \<Rightarrow> nat \<Rightarrow> 8 word list" where
  "load_bytes m a n = map (\<lambda>i. m (a + of_nat i)) [0..<n]"

definition bytes_of_u64 :: "u64 \<Rightarrow> 8 word list" where
  "bytes_of_u64 v = [ucast v, ucast (drop_bit 8 v), ucast (drop_bit 16 v), ucast (drop_bit 24 v),
     ucast (drop_bit 32 v), ucast (drop_bit 40 v), ucast (drop_bit 48 v), ucast (drop_bit 56 v)]"

definition u64_of_bytes :: "8 word list \<Rightarrow> u64" where
  "u64_of_bytes bs = foldr (\<lambda>b acc. ucast b OR push_bit 8 acc) bs 0"

definition load64 :: "(ptr \<Rightarrow> 8 word) \<Rightarrow> ptr \<Rightarrow> u64" where
  "load64 m a = u64_of_bytes (load_bytes m a 8)"

definition store64 :: "(ptr \<Rightarrow> 8 word) \<Rightarrow> ptr \<Rightarrow> u64 \<Rightarrow> (ptr \<Rightarrow> 8 word)" where
  "store64 m a v = store_bytes m a (bytes_of_u64 v)"


definition memset :: "ptr \<Rightarrow> 8 word \<Rightarrow> u64 \<Rightarrow> machine \<Rightarrow> machine" where
  "memset dst c n s = s\<lparr>mem := store_bytes (mem s) dst (replicate (unat n) c)\<rparr>"

section \<open>Page map and page provider\<close>

text \<open>
  Modelled from the spec: \<open>pagemap.h\<close> is missing. The map is keyed by the page that
  contains the address; \<open>SetPageInfo\<close> stores the descriptor of a page, \<open>GetPageInfo\<close>
  reads it.
\<close>

definition SetPageInfo :: "ptr \<Rightarrow> ptr \<Rightarrow> machine \<Rightarrow> machine" where
  "SetPageInfo p info s = s\<lparr>sPageMap := (sPageMap s)(drop_bit LG_PAGE p := info)\<rparr>"

definition GetPageInfo :: "ptr \<Rightarrow> machine \<Rightarrow> ptr" where
  "GetPageInfo p s = sPageMap s (drop_bit LG_PAGE p)"

definition PageAlloc :: "u64 \<Rightarrow> machine \<Rightarrow> ptr \<times> machine" where
  "PageAlloc n s =
     (case page_supply s of
        [] \<Rightarrow> (nullptr, s\<lparr>page_calls := page_calls s @ [PageAlloc_call n nullptr]\<rparr>)
      | p # ps \<Rightarrow> (p, s\<lparr>page_supply := ps, page_calls := page_calls s @ [PageAlloc_call n p]\<rparr>))"

definition PageFree :: "ptr \<Rightarrow> u64 \<Rightarrow> machine \<Rightarrow> machine" where
  "PageFree p n s = s\<lparr>page_calls := page_calls s @ [PageFree_call p n]\<rparr>"

section \<open>Threads and atomic operations\<close>

text \<open>
  The functions below are run by one thread; the other threads are a schedule, a list of
  events. Before each operation on a \<open>std::atomic\<close> object (a load, a store or a
  compare-exchange) the thread takes the next event of the schedule: \<open>Env f\<close> lets the
  other threads change the shared state by \<open>f\<close>, and \<open>Spurious\<close> makes a
  \<open>compare_exchange_weak\<close> that takes it fail although the value is the expected one.
  With the empty schedule the call runs alone.

  A function returns \<open>None\<close> when the call has no result: it loops forever, or it
  dereferences a null descriptor or heap.

  \<open>ASSERT\<close> and \<open>LOG_DEBUG\<close> (\<open>log.h\<close>, not among the sources) expand to nothing, the
  build the source is written for: it casts \<open>maxcount\<close> to \<open>void\<close> as "used in
  assert" and returns after \<open>ASSERT(desc)\<close>.
\<close>

datatype event = Env "machine \<Rightarrow> machine" | Spurious

fun yield :: "event list \<Rightarrow> machine \<Rightarrow> event list \<times> machine" where
  "yield [] s = ([], s)"
| "yield (Env f # es) s = (es, f s)"
| "yield (Spurious # es) s = (es, s)"

fun spurious :: "event list \<Rightarrow> bool" where
  "spurious (Spurious # es) = True"
| "spurious es = False"

section \<open>Utilities (lrmichael.cpp)\<close>

definition MakeActive :: "ptr \<Rightarrow> u64 \<Rightarrow> ptr" where
  "MakeActive d credits = d OR credits"

definition GetActive :: "ptr \<Rightarrow> ptr \<times> u64" where
  "GetActive a = (a AND NOT CREDITS_MASK, a AND CREDITS_MASK)"

text \<open>
  The loop \<open>for (idx = 0; idx < sbSize; idx += PAGE)\<close> of \<open>UpdatePageMap\<close> runs over the
  offsets of the pages of the superblock.
\<close>

definition page_offsets :: "u64 \<Rightarrow> u64 list" where
  "page_offsets sz = map (\<lambda>k. of_nat k * PAGE) [0..<(unat sz + unat PAGE - 1) div unat PAGE]"

definition UpdatePageMap :: "nat option \<Rightarrow> ptr \<Rightarrow> ptr \<Rightarrow> machine \<Rightarrow> machine" where
  "UpdatePageMap hp p v s =
     (case hp of
        None \<Rightarrow> SetPageInfo p v s
      | Some h \<Rightarrow>
          fold (\<lambda>idx. SetPageInfo (p + idx) v) (page_offsets (sbSize (sizeclass (Heaps s h)))) s)"

definition RegisterDesc :: "ptr \<Rightarrow> machine \<Rightarrow> machine" where
  "RegisterDesc d s = UpdatePageMap (heap (descs s d)) (superblock (descs s d)) d s"

definition UnregisterDesc :: "nat option \<Rightarrow> ptr \<Rightarrow> machine \<Rightarrow> machine" where
  "UnregisterDesc hp sb s = UpdatePageMap hp sb nullptr s"

definition GetDescriptorForPtr :: "ptr \<Rightarrow> machine \<Rightarrow> ptr" where
  "GetDescriptorForPtr p s = GetPageInfo p s"

section \<open>Descriptor recycle list\<close>

text \<open>The do-while loop of \<open>DescRetire\<close>; \<open>oldHead\<close> is the expected value of the next try.\<close>

partial_function (option) DescRetire_loop ::
  "ptr \<Rightarrow> DescriptorNode \<Rightarrow> event list \<Rightarrow> machine \<Rightarrow> (event list \<times> machine) option" where
  "DescRetire_loop d oldHead es s =
     (let (es1, s1) = yield es s;
          s2 = upd_desc d (\<lambda>x. x\<lparr>nextFree := oldHead\<rparr>) s1;
          newHead = \<lparr>desc = d, counter = counter oldHead + 1\<rparr>;
          (es3, s3) = yield es1 s2
      in if \<not> spurious es1 \<and> AvailDesc s3 = oldHead
         then Some (es3, s3\<lparr>AvailDesc := newHead\<rparr>)
         else DescRetire_loop d (AvailDesc s3) es3 s3)"

definition DescRetire :: "ptr \<Rightarrow> event list \<Rightarrow> machine \<Rightarrow> (event list \<times> machine) option" where
  "DescRetire d es s =
     (let (es1, s1) = yield es s
      in DescRetire_loop d (AvailDesc s1) es1 s1)"

text \<open>
  The loop of \<open>DescAlloc\<close> that carves a fresh block into descriptors and links them:
  \<open>cur\<close> is \<open>currPtr\<close>, \<open>blk\<close> the block's address. It returns the last descriptor
  (\<open>prev\<close>).
\<close>

partial_function (option) DescAlloc_carve ::
  "ptr \<Rightarrow> ptr \<Rightarrow> ptr \<Rightarrow> event list \<Rightarrow> machine \<Rightarrow> (ptr \<times> event list \<times> machine) option" where
  "DescAlloc_carve blk cur prev es s =
     (if cur + sizeof_Descriptor < blk + DESCRIPTOR_BLOCK_SZ
      then
        let (es1, s1) =
              (if prev \<noteq> nullptr
               then let (es', s') = yield es s
                    in (es', upd_desc prev (\<lambda>x. x\<lparr>nextFree := \<lparr>desc = cur, counter = 0\<rparr>\<rparr>) s')
               else (es, s))
        in DescAlloc_carve blk (ALIGN_ADDR (cur + sizeof_Descriptor) CACHELINE) cur es1 s1
      else Some (prev, es, s))"

text \<open>The loop of \<open>DescAlloc\<close> that pushes the chain \<open>first .. prev\<close> on the list.\<close>

partial_function (option) DescAlloc_push ::
  "ptr \<Rightarrow> ptr \<Rightarrow> DescriptorNode \<Rightarrow> event list \<Rightarrow> machine \<Rightarrow> (event list \<times> machine) option" where
  "DescAlloc_push first prev oldHead es s =
     (let (es1, s1) = yield es s;
          s2 = upd_desc prev (\<lambda>x. x\<lparr>nextFree := oldHead\<rparr>) s1;
          newHead = \<lparr>desc = first, counter = counter oldHead + 1\<rparr>;
          (es3, s3) = yield es1 s2
      in if \<not> spurious es1 \<and> AvailDesc s3 = oldHead
         then Some (es3, s3\<lparr>AvailDesc := newHead\<rparr>)
         else DescAlloc_push first prev (AvailDesc s3) es3 s3)"

text \<open>
  The \<open>while (true)\<close> loop of \<open>DescAlloc\<close>. A failed pop runs the loop again with the
  head the compare-exchange read.
\<close>

partial_function (option) DescAlloc_loop ::
  "DescriptorNode \<Rightarrow> event list \<Rightarrow> machine \<Rightarrow> (ptr \<times> event list \<times> machine) option" where
  "DescAlloc_loop oldHead es s =
     (if desc oldHead \<noteq> nullptr
      then
        let (es1, s1) = yield es s;
            newHead = (nextFree (descs s1 (desc oldHead)))\<lparr>counter := counter oldHead\<rparr>;
            (es2, s2) = yield es1 s1
        in if \<not> spurious es1 \<and> AvailDesc s2 = oldHead
           then Some (desc oldHead, es2, s2\<lparr>AvailDesc := newHead\<rparr>)
           else DescAlloc_loop (AvailDesc s2) es2 s2
      else
        let (p, s1) = PageAlloc DESCRIPTOR_BLOCK_SZ s;
            ret = p;
            first = ALIGN_ADDR (p + sizeof_Descriptor) CACHELINE
        in do {
             (prev, es2, s2) \<leftarrow> DescAlloc_carve p first nullptr es s1;
             if prev = nullptr then None
             else do {
               let (es3, s3) = yield es2 s2;
               let s4 = upd_desc prev (\<lambda>x. x\<lparr>nextFree := \<lparr>desc = nullptr, counter = 0\<rparr>\<rparr>) s3;
               let (es5, s5) = yield es3 s4;
               (es6, s6) \<leftarrow> DescAlloc_push first prev (AvailDesc s5) es5 s5;
               Some (ret, es6, s6)
             }
           })"

definition DescAlloc :: "event list \<Rightarrow> machine \<Rightarrow> (ptr \<times> event list \<times> machine) option" where
  "DescAlloc es s =
     (let (es1, s1) = yield es s
      in DescAlloc_loop (AvailDesc s1) es1 s1)"

section \<open>Partial list of a heap\<close>

partial_function (option) ListPopPartial_loop ::
  "nat \<Rightarrow> DescriptorNode \<Rightarrow> event list \<Rightarrow> machine \<Rightarrow> (ptr \<times> event list \<times> machine) option" where
  "ListPopPartial_loop h oldHead es s =
     (if desc oldHead = nullptr then Some (nullptr, es, s)
      else
        let (es1, s1) = yield es s;
            newHead = (nextPartial (descs s1 (desc oldHead)))\<lparr>counter := counter oldHead\<rparr>;
            (es2, s2) = yield es1 s1
        in if \<not> spurious es1 \<and> partialList (Heaps s2 h) = oldHead
           then Some (desc oldHead, es2, upd_heap h (\<lambda>x. x\<lparr>partialList := newHead\<rparr>) s2)
           else ListPopPartial_loop h (partialList (Heaps s2 h)) es2 s2)"

definition ListPopPartial :: "nat \<Rightarrow> event list \<Rightarrow> machine \<Rightarrow> (ptr \<times> event list \<times> machine) option" where
  "ListPopPartial h es s =
     (let (es1, s1) = yield es s
      in ListPopPartial_loop h (partialList (Heaps s1 h)) es1 s1)"

text \<open>\<open>newHead\<close> is built once, before the loop, from the head first loaded.\<close>

partial_function (option) ListPushPartial_loop ::
  "nat \<Rightarrow> DescriptorNode \<Rightarrow> DescriptorNode \<Rightarrow> event list \<Rightarrow> machine \<Rightarrow> (event list \<times> machine) option" where
  "ListPushPartial_loop h newHead oldHead es s =
     (let (es1, s1) = yield es s;
          s2 = upd_desc (desc newHead) (\<lambda>x. x\<lparr>nextPartial := oldHead\<rparr>) s1;
          (es3, s3) = yield es1 s2
      in if \<not> spurious es1 \<and> partialList (Heaps s3 h) = oldHead
         then Some (es3, upd_heap h (\<lambda>x. x\<lparr>partialList := newHead\<rparr>) s3)
         else ListPushPartial_loop h newHead (partialList (Heaps s3 h)) es3 s3)"

definition ListPushPartial :: "ptr \<Rightarrow> event list \<Rightarrow> machine \<Rightarrow> (event list \<times> machine) option" where
  "ListPushPartial d es s =
     (case heap (descs s d) of
        None \<Rightarrow> None
      | Some h \<Rightarrow>
          let (es1, s1) = yield es s;
              oldHead = partialList (Heaps s1 h);
              newHead = \<lparr>desc = d, counter = counter oldHead + 1\<rparr>
          in ListPushPartial_loop h newHead oldHead es1 s1)"

text \<open>The body of \<open>ListRemoveEmptyDesc\<close> is empty (a todo comment).\<close>

definition ListRemoveEmptyDesc :: "nat option \<Rightarrow> ptr \<Rightarrow> machine \<Rightarrow> machine" where
  "ListRemoveEmptyDesc hp d s = s"

definition HeapPushPartial :: "ptr \<Rightarrow> event list \<Rightarrow> machine \<Rightarrow> (event list \<times> machine) option" where
  "HeapPushPartial d es s = ListPushPartial d es s"

definition HeapPopPartial :: "nat \<Rightarrow> event list \<Rightarrow> machine \<Rightarrow> (ptr \<times> event list \<times> machine) option" where
  "HeapPopPartial h es s = ListPopPartial h es s"

definition RemoveEmptyDesc :: "nat option \<Rightarrow> ptr \<Rightarrow> machine \<Rightarrow> machine" where
  "RemoveEmptyDesc hp d s = ListRemoveEmptyDesc hp d s"

section \<open>The active descriptor\<close>

text \<open>The loop of \<open>UpdateActive\<close> that gives the credits back to the anchor.\<close>

partial_function (option) UpdateActive_loop ::
  "ptr \<Rightarrow> u64 \<Rightarrow> Anchor \<Rightarrow> event list \<Rightarrow> machine \<Rightarrow> (event list \<times> machine) option" where
  "UpdateActive_loop d credits oldAnchor es s =
     (let newAnchor = oldAnchor\<lparr>count := count oldAnchor + ucast credits, state := SB_PARTIAL\<rparr>;
          (es1, s1) = yield es s
      in if \<not> spurious es \<and> anchor (descs s1 d) = oldAnchor
         then Some (es1, upd_desc d (\<lambda>x. x\<lparr>anchor := newAnchor\<rparr>) s1)
         else UpdateActive_loop d credits (anchor (descs s1 d)) es1 s1)"

text \<open>
  \<open>UpdateActive\<close>: the expected value of the strong compare-exchange is the value the
  load before it read.
\<close>

definition UpdateActive :: "nat \<Rightarrow> ptr \<Rightarrow> u64 \<Rightarrow> event list \<Rightarrow> machine \<Rightarrow> (event list \<times> machine) option" where
  "UpdateActive h d credits es s =
     (let (es1, s1) = yield es s;
          oldActive = active (Heaps s1 h);
          newActive = MakeActive d (credits - 1);
          (es2, s2) = yield es1 s1
      in if active (Heaps s2 h) = oldActive
         then Some (es2, upd_heap h (\<lambda>x. x\<lparr>active := newActive\<rparr>) s2)
         else
           let (es3, s3) = yield es2 s2
           in do {
                (es4, s4) \<leftarrow> UpdateActive_loop d credits (anchor (descs s3 d)) es3 s3;
                HeapPushPartial d es4 s4
              })"

section \<open>Allocation from the active superblock\<close>

text \<open>
  The first loop of \<open>MallocFromActive\<close> reserves a block: it returns \<open>None\<close> for the early
  \<open>return nullptr\<close>, and else the values of \<open>oldActive\<close> and \<open>oldCredits\<close> at the
  compare-exchange that succeeded.
\<close>

partial_function (option) MallocFromActive_reserve ::
  "nat \<Rightarrow> ptr \<Rightarrow> event list \<Rightarrow> machine \<Rightarrow> ((ptr \<times> u64) option \<times> event list \<times> machine) option" where
  "MallocFromActive_reserve h oldActive es s =
     (if oldActive = nullptr then Some (None, es, s)
      else
        let (oldDesc, oldCredits) = GetActive oldActive;
            newActive = (if oldCredits > 0 then MakeActive oldDesc (oldCredits - 1) else nullptr);
            (es1, s1) = yield es s
        in if \<not> spurious es \<and> active (Heaps s1 h) = oldActive
           then Some (Some (oldActive, oldCredits), es1, upd_heap h (\<lambda>x. x\<lparr>active := newActive\<rparr>) s1)
           else MallocFromActive_reserve h (active (Heaps s1 h)) es1 s1)"

text \<open>
  The anchor update one pass of the second loop computes from \<open>oldAnchor\<close>: the block
  \<open>ptr\<close>, \<open>newAnchor\<close> and the variable \<open>credits\<close>, which keeps its value when the pass
  does not assign it.
\<close>

definition MallocFromActive_step ::
  "Descriptor \<Rightarrow> (ptr \<Rightarrow> 8 word) \<Rightarrow> u64 \<Rightarrow> u64 \<Rightarrow> Anchor \<Rightarrow> ptr \<times> Anchor \<times> u64" where
  "MallocFromActive_step dv m oldCredits credits oldAnchor =
     (let blockSize = blockSize dv;
          avail = ucast (avail oldAnchor);
          offset = avail * blockSize;
          p = superblock dv + offset;
          next = load64 m p;
          newAnchor = oldAnchor\<lparr>avail := ucast next, tag := tag oldAnchor + 1\<rparr>
      in if oldCredits = 0
         then
           if count oldAnchor = 0
           then (p, newAnchor\<lparr>state := SB_FULL\<rparr>, credits)
           else
             let credits' = min (ucast (count oldAnchor)) CREDITS_MAX
             in (p, newAnchor\<lparr>count := count newAnchor - ucast credits'\<rparr>, credits')
         else (p, newAnchor, credits))"

partial_function (option) MallocFromActive_pop ::
  "ptr \<Rightarrow> u64 \<Rightarrow> u64 \<Rightarrow> Anchor \<Rightarrow> event list \<Rightarrow> machine \<Rightarrow>
     ((ptr \<times> u64) \<times> event list \<times> machine) option" where
  "MallocFromActive_pop d oldCredits credits oldAnchor es s =
     (let (p, newAnchor, credits') = MallocFromActive_step (descs s d) (mem s) oldCredits credits oldAnchor;
          (es1, s1) = yield es s
      in if \<not> spurious es \<and> anchor (descs s1 d) = oldAnchor
         then Some ((p, credits'), es1, upd_desc d (\<lambda>x. x\<lparr>anchor := newAnchor\<rparr>) s1)
         else MallocFromActive_pop d oldCredits credits' (anchor (descs s1 d)) es1 s1)"

definition MallocFromActive :: "nat \<Rightarrow> event list \<Rightarrow> machine \<Rightarrow> (ptr \<times> event list \<times> machine) option" where
  "MallocFromActive h es s =
     (let (es1, s1) = yield es s
      in do {
           (r, es2, s2) \<leftarrow> MallocFromActive_reserve h (active (Heaps s1 h)) es1 s1;
           case r of
             None \<Rightarrow> Some (nullptr, es2, s2)
           | Some (oldActive, oldCredits) \<Rightarrow>
               let d = oldActive AND NOT CREDITS_MASK;
                   (es3, s3) = yield es2 s2
               in do {
                    ((p, credits), es4, s4) \<leftarrow>
                      MallocFromActive_pop d oldCredits 0 (anchor (descs s3 d)) es3 s3;
                    if credits > 0
                    then do {
                      (es5, s5) \<leftarrow> UpdateActive h d credits es4 s4;
                      Some (p, es5, s5)
                    }
                    else Some (p, es4, s4)
                  }
         })"

section \<open>Allocation from a partial superblock\<close>

text \<open>
  The first loop of \<open>MallocFromPartial\<close>: \<open>None\<close> when it saw the state \<open>SB_EMPTY\<close> (the
  caller retires the descriptor and retries), else the credits it reserved.
\<close>

partial_function (option) MallocFromPartial_reserve ::
  "ptr \<Rightarrow> Anchor \<Rightarrow> event list \<Rightarrow> machine \<Rightarrow> (u64 option \<times> event list \<times> machine) option" where
  "MallocFromPartial_reserve d oldAnchor es s =
     (if state oldAnchor = SB_EMPTY then Some (None, es, s)
      else
        let credits = min (ucast (count oldAnchor) - 1) CREDITS_MAX;
            newAnchor = oldAnchor\<lparr>count := count oldAnchor - 1 - ucast credits,
                                  state := (if credits > 0 then SB_ACTIVE else SB_FULL)\<rparr>;
            (es1, s1) = yield es s
        in if \<not> spurious es \<and> anchor (descs s1 d) = oldAnchor
           then Some (Some credits, es1, upd_desc d (\<lambda>x. x\<lparr>anchor := newAnchor\<rparr>) s1)
           else MallocFromPartial_reserve d (anchor (descs s1 d)) es1 s1)"

text \<open>The second loop pops the reserved block; the block size is read through the heap.\<close>

partial_function (option) MallocFromPartial_pop ::
  "ptr \<Rightarrow> Anchor \<Rightarrow> event list \<Rightarrow> machine \<Rightarrow> (ptr \<times> event list \<times> machine) option" where
  "MallocFromPartial_pop d oldAnchor es s =
     (case heap (descs s d) of
        None \<Rightarrow> None
      | Some h' \<Rightarrow>
          let idx = ucast (avail oldAnchor);
              blockSize = sc_blockSize (sizeclass (Heaps s h'));
              p = superblock (descs s d) + idx * blockSize;
              newAnchor = oldAnchor\<lparr>avail := ucast (load64 (mem s) p), tag := tag oldAnchor + 1\<rparr>;
              (es1, s1) = yield es s
          in if \<not> spurious es \<and> anchor (descs s1 d) = oldAnchor
             then Some (p, es1, upd_desc d (\<lambda>x. x\<lparr>anchor := newAnchor\<rparr>) s1)
             else MallocFromPartial_pop d (anchor (descs s1 d)) es1 s1)"

partial_function (option) MallocFromPartial ::
  "nat \<Rightarrow> event list \<Rightarrow> machine \<Rightarrow> (ptr \<times> event list \<times> machine) option" where
  "MallocFromPartial h es s =
     do {
       (d, es1, s1) \<leftarrow> HeapPopPartial h es s;
       if d = nullptr then Some (nullptr, es1, s1)
       else
         let (es2, s2) = yield es1 s1
         in do {
              (r, es3, s3) \<leftarrow> MallocFromPartial_reserve d (anchor (descs s2 d)) es2 s2;
              case r of
                None \<Rightarrow> do {
                  (es4, s4) \<leftarrow> DescRetire d es3 s3;
                  MallocFromPartial h es4 s4
                }
              | Some credits \<Rightarrow>
                  let (es4, s4) = yield es3 s3
                  in do {
                       (p, es5, s5) \<leftarrow> MallocFromPartial_pop d (anchor (descs s4 d)) es4 s4;
                       if credits > 0
                       then do {
                         (es6, s6) \<leftarrow> UpdateActive h d credits es5 s5;
                         Some (p, es6, s6)
                       }
                       else Some (p, es5, s5)
                     }
            }
     }"

section \<open>Allocation from a new superblock\<close>

text \<open>
  The loop \<open>for (idx = 1; idx < desc->maxcount - 1; ++idx)\<close> that links the blocks of a
  fresh superblock: block \<open>idx\<close> stores \<open>idx + 1\<close> in its first eight bytes.
\<close>

definition format_superblock :: "ptr \<Rightarrow> u64 \<Rightarrow> u64 \<Rightarrow> (ptr \<Rightarrow> 8 word) \<Rightarrow> (ptr \<Rightarrow> 8 word)" where
  "format_superblock sb bsz maxc m =
     fold (\<lambda>idx m'. store64 m' (sb + of_nat idx * bsz) (of_nat idx + 1))
          [1..<unat (maxc - 1)] m"

text \<open>The branch of \<open>MallocFromNewSB\<close> taken when the descriptor was not installed.\<close>

definition MallocFromNewSB_fail ::
  "SizeClassData \<Rightarrow> ptr \<Rightarrow> event list \<Rightarrow> machine \<Rightarrow> (ptr \<times> event list \<times> machine) option" where
  "MallocFromNewSB_fail sc d es s =
     (let s1 = UnregisterDesc (heap (descs s d)) (superblock (descs s d)) s;
          s2 = PageFree (superblock (descs s1 d)) (sbSize sc) s1
      in do {
           (es3, s3) \<leftarrow> DescRetire d es s2;
           Some (nullptr, es3, s3)
         })"

definition MallocFromNewSB :: "nat \<Rightarrow> event list \<Rightarrow> machine \<Rightarrow> (ptr \<times> event list \<times> machine) option" where
  "MallocFromNewSB h es s =
     (let sc = sizeclass (Heaps s h)
      in do {
           (d, es1, s1) \<leftarrow> DescAlloc es s;
           let s2 = upd_desc d (\<lambda>x. x\<lparr>heap := Some h, blockSize := sc_blockSize sc,
                                         maxcount := blockNum sc\<rparr>) s1;
           let (sb, s3) = PageAlloc (sbSize sc) s2;
           let s4 = upd_desc d (\<lambda>x. x\<lparr>superblock := sb\<rparr>) s3;
           let s5 = s4\<lparr>mem := format_superblock (superblock (descs s4 d)) (sc_blockSize sc)
                                 (maxcount (descs s4 d)) (mem s4)\<rparr>;
           let credits = min (maxcount (descs s5 d) - 1) CREDITS_MAX;
           let newActive = MakeActive d (credits - 1);
           let anchor0 = \<lparr>state = SB_ACTIVE, avail = 1,
                          count = ucast ((maxcount (descs s5 d) - 1) - credits), tag = 0\<rparr>;
           let (es6, s6) = yield es1 s5;
           let s7 = upd_desc d (\<lambda>x. x\<lparr>anchor := anchor0\<rparr>) s6;
           let s8 = RegisterDesc d s7;
           let (es9, s9) = yield es6 s8;
           let oldActive = active (Heaps s9 h);
           if oldActive \<noteq> nullptr then MallocFromNewSB_fail sc d es9 s9
           else
             let (es10, s10) = yield es9 s9
             in if active (Heaps s10 h) = oldActive
                then let s11 = upd_heap h (\<lambda>x. x\<lparr>active := newActive\<rparr>) s10
                     in Some (superblock (descs s11 d), es10, s11)
                else MallocFromNewSB_fail sc d es10 s10
         })"

section \<open>Initialisation and the public interface\<close>

text \<open>
  \<open>InitMalloc\<close> runs before any other thread uses the allocator (the source's "hard
  assumption"): it is one step. \<open>InitSizeClass\<close> fills the table \<open>SizeClasses\<close>.
\<close>

definition InitMalloc :: "platform \<Rightarrow> machine \<Rightarrow> machine" where
  "InitMalloc P s =
     s\<lparr>MallocInit := True,
       Heaps := (\<lambda>idx. if idx < MAX_SZ_IDX P
                        then \<lparr>active = nullptr, partialList = \<lparr>desc = nullptr, counter = 0\<rparr>,
                              sizeclass = SizeClasses P idx\<rparr>
                        else Heaps s idx)\<rparr>"

definition GetProcHeap :: "platform \<Rightarrow> u64 \<Rightarrow> machine \<Rightarrow> nat option \<times> machine" where
  "GetProcHeap P sz s =
     (let s1 = (if \<not> MallocInit s then InitMalloc P s else s);
          scIdx = GetSizeClass P sz
      in (if scIdx \<noteq> 0 then Some scIdx else None, s1))"

text \<open>The \<open>while (1)\<close> loop of \<open>malloc\<close> over the three sources of a block.\<close>

partial_function (option) lr_malloc_loop ::
  "nat \<Rightarrow> event list \<Rightarrow> machine \<Rightarrow> (ptr \<times> event list \<times> machine) option" where
  "lr_malloc_loop h es s =
     do {
       (p1, es1, s1) \<leftarrow> MallocFromActive h es s;
       if p1 \<noteq> nullptr then Some (p1, es1, s1)
       else do {
         (p2, es2, s2) \<leftarrow> MallocFromPartial h es1 s1;
         if p2 \<noteq> nullptr then Some (p2, es2, s2)
         else do {
           (p3, es3, s3) \<leftarrow> MallocFromNewSB h es2 s2;
           if p3 \<noteq> nullptr then Some (p3, es3, s3)
           else lr_malloc_loop h es3 s3
         }
       }
     }"

definition lr_malloc :: "platform \<Rightarrow> u64 \<Rightarrow> event list \<Rightarrow> machine \<Rightarrow> (ptr \<times> event list \<times> machine) option" where
  "lr_malloc P sz es s =
     (let (hp, s0) = GetProcHeap P sz s
      in case hp of
           None \<Rightarrow>
             let pages = PAGE_CEILING sz
             in do {
                  (d, es1, s1) \<leftarrow> DescAlloc es s0;
                  let s2 = upd_desc d (\<lambda>x. x\<lparr>heap := None, blockSize := pages, maxcount := 1\<rparr>) s1;
                  let (sb, s3) = PageAlloc pages s2;
                  let s4 = upd_desc d (\<lambda>x. x\<lparr>superblock := sb\<rparr>) s3;
                  let anchor0 = \<lparr>state = SB_FULL, avail = 0, count = 0, tag = 0\<rparr>;
                  let (es5, s5) = yield es1 s4;
                  let s6 = upd_desc d (\<lambda>x. x\<lparr>anchor := anchor0\<rparr>) s5;
                  let s7 = RegisterDesc d s6;
                  Some (superblock (descs s7 d), es5, s7)
                }
         | Some h \<Rightarrow> lr_malloc_loop h es s0)"

text \<open>
  The anchor update one pass of the loop of \<open>free\<close> computes for the block index \<open>idx\<close>.
\<close>

definition lr_free_step :: "u64 \<Rightarrow> u64 \<Rightarrow> Anchor \<Rightarrow> Anchor" where
  "lr_free_step maxc idx oldAnchor =
     (let newAnchor = oldAnchor\<lparr>avail := ucast idx\<rparr>;
          newAnchor1 = (if state oldAnchor = SB_FULL then newAnchor\<lparr>state := SB_PARTIAL\<rparr>
                        else newAnchor)
      in if ucast (count oldAnchor) = maxc - 1
         then newAnchor1\<lparr>state := SB_EMPTY\<rparr>
         else newAnchor1\<lparr>count := count newAnchor1 + 1\<rparr>)"

text \<open>
  The loop of \<open>free\<close>: \<open>sb\<close> is the local \<open>superblock\<close>, \<open>p\<close> the variable \<open>ptr\<close>, which
  each pass recomputes. It returns \<open>oldAnchor\<close> and \<open>newAnchor\<close> of the compare-exchange
  that succeeded. A division by a zero block size has no result.
\<close>

partial_function (option) lr_free_loop ::
  "ptr \<Rightarrow> ptr \<Rightarrow> ptr \<Rightarrow> Anchor \<Rightarrow> event list \<Rightarrow> machine \<Rightarrow>
     ((Anchor \<times> Anchor) \<times> event list \<times> machine) option" where
  "lr_free_loop d sb p oldAnchor es s =
     (let blockSize = blockSize (descs s d)
      in if blockSize = 0 then None
         else
           let idx = (p - sb) div blockSize;
               p' = superblock (descs s d) + idx * blockSize;
               s1 = s\<lparr>mem := store64 (mem s) p' (ucast (avail oldAnchor))\<rparr>;
               newAnchor = lr_free_step (maxcount (descs s1 d)) idx oldAnchor;
               (es2, s2) = yield es s1
           in if \<not> spurious es \<and> anchor (descs s2 d) = oldAnchor
              then Some ((oldAnchor, newAnchor), es2, upd_desc d (\<lambda>x. x\<lparr>anchor := newAnchor\<rparr>) s2)
              else lr_free_loop d sb p' (anchor (descs s2 d)) es2 s2)"

definition lr_free :: "ptr \<Rightarrow> event list \<Rightarrow> machine \<Rightarrow> (event list \<times> machine) option" where
  "lr_free p es s =
     (if p = nullptr then Some (es, s)
      else
        let d = GetDescriptorForPtr p s
        in if d = nullptr then Some (es, s)
           else
             let hp = heap (descs s d);
                 sb = superblock (descs s d)
             in case hp of
                  None \<Rightarrow>
                    let s1 = UnregisterDesc None sb s;
                        s2 = (if p \<noteq> sb then UnregisterDesc None p s1 else s1);
                        s3 = PageFree sb (blockSize (descs s2 d)) s2;
                        s4 = RemoveEmptyDesc hp d s3
                    in DescRetire d es s4
                | Some h \<Rightarrow>
                    let (es1, s1) = yield es s
                    in do {
                         ((oldAnchor, newAnchor), es2, s2) \<leftarrow>
                           lr_free_loop d sb p (anchor (descs s1 d)) es1 s1;
                         if state newAnchor = SB_EMPTY
                         then
                           let s3 = UnregisterDesc hp sb s2;
                               s4 = PageFree sb (sbSize (sizeclass (Heaps s3 h))) s3;
                               s5 = RemoveEmptyDesc hp d s4
                           in Some (es2, s5)
                         else if state oldAnchor = SB_FULL then HeapPushPartial d es2 s2
                         else Some (es2, s2)
                       })"

definition lr_calloc :: "platform \<Rightarrow> u64 \<Rightarrow> u64 \<Rightarrow> event list \<Rightarrow> machine \<Rightarrow> (ptr \<times> event list \<times> machine) option" where
  "lr_calloc P n sz es s =
     (let allocSize = n * sz
      in if n = 0 \<or> allocSize div n \<noteq> sz then Some (nullptr, es, s)
         else do {
           (p, es1, s1) \<leftarrow> lr_malloc P allocSize es s;
           Some (p, es1, if p \<noteq> nullptr then memset p 0 allocSize s1 else s1)
         })"


definition lr_malloc_usable_size :: "ptr \<Rightarrow> machine \<Rightarrow> u64 option" where
  "lr_malloc_usable_size p s =
     (if p = nullptr then Some 0
      else
        let d = GetDescriptorForPtr p s
        in if d = nullptr then None else Some (blockSize (descs s d)))"

text \<open>
  \<open>posix_memalign\<close> returns its error code and the pointer it wrote to \<open>*memptr\<close>
  (\<open>None\<close> when it wrote none).
\<close>

definition lr_posix_memalign ::
  "platform \<Rightarrow> u64 \<Rightarrow> u64 \<Rightarrow> event list \<Rightarrow> machine \<Rightarrow> ((int \<times> ptr option) \<times> event list \<times> machine) option" where
  "lr_posix_memalign P alignment sz es s =
     (let sz' = max alignment sz * 2
      in do {
           (p, es1, s1) \<leftarrow> lr_malloc P sz' es s;
           if p = nullptr then Some ((ENOMEM, None), es1, s1)
           else
             let d = GetDescriptorForPtr p s1
             in if d = nullptr then None
                else
                  let p' = ALIGN_ADDR p alignment;
                      s2 = (if heap (descs s1 d) = None then UpdatePageMap None p' d s1 else s1)
                  in Some ((0, Some p'), es1, s2)
         })"

definition lr_aligned_alloc :: "platform \<Rightarrow> u64 \<Rightarrow> u64 \<Rightarrow> event list \<Rightarrow> machine \<Rightarrow> (ptr \<times> event list \<times> machine) option" where
  "lr_aligned_alloc P alignment sz es s =
     do {
       ((ret, out), es1, s1) \<leftarrow> lr_posix_memalign P alignment sz es s;
       if ret \<noteq> 0 then Some (nullptr, es1, s1)
       else Some (case out of None \<Rightarrow> nullptr | Some p \<Rightarrow> p, es1, s1)
     }"

definition lr_valloc :: "platform \<Rightarrow> u64 \<Rightarrow> event list \<Rightarrow> machine \<Rightarrow> (ptr \<times> event list \<times> machine) option" where
  "lr_valloc P sz es s = lr_aligned_alloc P PAGE sz es s"

definition lr_memalign :: "platform \<Rightarrow> u64 \<Rightarrow> u64 \<Rightarrow> event list \<Rightarrow> machine \<Rightarrow> (ptr \<times> event list \<times> machine) option" where
  "lr_memalign P alignment sz es s = lr_aligned_alloc P alignment sz es s"

definition lr_pvalloc :: "platform \<Rightarrow> u64 \<Rightarrow> event list \<Rightarrow> machine \<Rightarrow> (ptr \<times> event list \<times> machine) option" where
  "lr_pvalloc P sz es s = lr_aligned_alloc P PAGE (ALIGN_ADDR sz PAGE) es s"

section \<open>An example configuration\<close>

text \<open>
  A platform with one size class (eight blocks of 1024 bytes in a superblock of two
  pages; larger requests take the large path) and an initialised allocator whose
  descriptor recycle list holds three descriptors. Every byte of memory holds bits 20 to
  27 of its address, and the page provider has two regions to give. The witnesses below run the code on
  states built from it.
\<close>

definition ex_sizeclass :: SizeClassData where
  "ex_sizeclass = \<lparr>sc_blockSize = 1024, sbSize = 8192, blockNum = 8\<rparr>"

definition ex_platform :: platform where
  "ex_platform = \<lparr>GetSizeClass = (\<lambda>sz. if sz \<le> 1024 then 1 else 0),
                   SizeClasses = (\<lambda>_. ex_sizeclass), MAX_SZ_IDX = 2\<rparr>"

definition ex_descriptor :: "ptr \<Rightarrow> Descriptor" where
  "ex_descriptor nxt =
     \<lparr>nextFree = \<lparr>desc = nxt, counter = 0\<rparr>, nextPartial = \<lparr>desc = nullptr, counter = 0\<rparr>,
      anchor = \<lparr>state = SB_EMPTY, avail = 0, count = 0, tag = 0\<rparr>,
      superblock = nullptr, heap = None, blockSize = 0, maxcount = 0\<rparr>"

definition ex_machine :: machine where
  "ex_machine =
     \<lparr>AvailDesc = \<lparr>desc = 0x10000, counter = 0\<rparr>,
      descs = (\<lambda>a. if a = 0x10000 then ex_descriptor 0x10080
                     else if a = 0x10080 then ex_descriptor 0x10100
                     else ex_descriptor nullptr),
      MallocInit = True,
      Heaps = (\<lambda>_. \<lparr>active = nullptr, partialList = \<lparr>desc = nullptr, counter = 0\<rparr>,
                      sizeclass = ex_sizeclass\<rparr>),
      mem = (\<lambda>a. ucast (drop_bit 20 a)),
      sPageMap = (\<lambda>_. nullptr),
      page_supply = [0x200000, 0x300000],
      page_calls = []\<rparr>"


text \<open>
  The example machine with an active superblock for class 1 whose last credit is about to
  be taken: the active pointer is the descriptor \<open>0x10180\<close> with 0 credits, registered
  for the two pages of its superblock \<open>0x200000\<close> of 512 blocks of 16 bytes; its anchor
  counts 100 free blocks, the head of its free list is block 3, and block 3 links to
  block 4.
\<close>

definition ex_machine_active :: machine where
  "ex_machine_active =
     ex_machine\<lparr>descs := (descs ex_machine)
                    (0x10180 := \<lparr>nextFree = \<lparr>desc = nullptr, counter = 0\<rparr>,
                                 nextPartial = \<lparr>desc = nullptr, counter = 0\<rparr>,
                                 anchor = \<lparr>state = SB_ACTIVE, avail = 3, count = 100, tag = 7\<rparr>,
                                 superblock = 0x200000, heap = Some 1, blockSize = 16, maxcount = 512\<rparr>),
                 Heaps := (Heaps ex_machine)
                    (1 := \<lparr>active = 0x10180, partialList = \<lparr>desc = nullptr, counter = 0\<rparr>,
                           sizeclass = \<lparr>sc_blockSize = 16, sbSize = 8192, blockNum = 512\<rparr>\<rparr>),
                 mem := store64 (mem ex_machine) 0x200030 4,
                 sPageMap := (\<lambda>k. if k = 0x200 \<or> k = 0x201 then 0x10180 else nullptr),
                 page_supply := [0x300000],
                 page_calls := [PageAlloc_call 8192 0x200000]\<rparr>"

text \<open>
  The example machine with a superblock of class 1 that has one block outstanding: the
  descriptor \<open>0x10180\<close> is registered for the two pages of the superblock \<open>0x200000\<close>,
  it is on the partial list, and its anchor counts the other seven blocks.
\<close>

definition ex_machine_last_block :: machine where
  "ex_machine_last_block =
     ex_machine\<lparr>descs := (descs ex_machine)
                    (0x10180 := \<lparr>nextFree = \<lparr>desc = nullptr, counter = 0\<rparr>,
                                 nextPartial = \<lparr>desc = nullptr, counter = 0\<rparr>,
                                 anchor = \<lparr>state = SB_PARTIAL, avail = 1, count = 7, tag = 3\<rparr>,
                                 superblock = 0x200000, heap = Some 1, blockSize = 1024, maxcount = 8\<rparr>),
                 Heaps := (Heaps ex_machine)
                    (1 := \<lparr>active = nullptr, partialList = \<lparr>desc = 0x10180, counter = 1\<rparr>,
                           sizeclass = ex_sizeclass\<rparr>),
                 sPageMap := (\<lambda>k. if k = 0x200 \<or> k = 0x201 then 0x10180 else nullptr),
                 page_supply := [0x300000],
                 page_calls := [PageAlloc_call 8192 0x200000]\<rparr>"

text \<open>
  The same machine after a thread has taken that last credit in \<open>MallocFromActive\<close> and
  reserved 64 credits in the anchor, just before it calls \<open>UpdateActive\<close>: the heap has no
  active descriptor.
\<close>

definition ex_machine_reserved :: machine where
  "ex_machine_reserved =
     upd_desc 0x10180 (\<lambda>x. x\<lparr>anchor := \<lparr>state = SB_ACTIVE, avail = 4, count = 36, tag = 8\<rparr>\<rparr>)
       (upd_heap 1 (\<lambda>x. x\<lparr>active := nullptr\<rparr>) ex_machine_active)"

text \<open>Another thread's complete call \<open>malloc(16)\<close>, as one step of interference.\<close>

definition ex_other_thread_malloc :: "machine \<Rightarrow> machine" where
  "ex_other_thread_malloc s =
     (case lr_malloc ex_platform 16 [] s of Some (p, es, s') \<Rightarrow> s' | None \<Rightarrow> s)"


section \<open>A race on the partial list\<close>

text \<open>
  A platform whose class 1 has two blocks of 4096 bytes in a superblock of two pages, and
  an initialised allocator with three descriptors on the recycle list and three regions
  to get from the page provider.
\<close>

definition aba_sizeclass :: SizeClassData where
  "aba_sizeclass = \<lparr>sc_blockSize = 4096, sbSize = 8192, blockNum = 2\<rparr>"

definition aba_platform :: platform where
  "aba_platform = \<lparr>GetSizeClass = (\<lambda>sz. if sz \<le> 4096 then 1 else 0),
                    SizeClasses = (\<lambda>_. aba_sizeclass), MAX_SZ_IDX = 2\<rparr>"

definition aba_fresh :: machine where
  "aba_fresh =
     ex_machine\<lparr>Heaps := (\<lambda>_. \<lparr>active = nullptr, partialList = \<lparr>desc = nullptr, counter = 0\<rparr>,
                                sizeclass = aba_sizeclass\<rparr>),
                 page_supply := [0x200000, 0x300000, 0x400000]\<rparr>"

text \<open>A complete call of \<open>free\<close> or \<open>malloc\<close> by another thread, as one step of interference.\<close>

definition other_free :: "ptr \<Rightarrow> machine \<Rightarrow> machine" where
  "other_free p s = (case lr_free p [] s of Some (es, s') \<Rightarrow> s' | None \<Rightarrow> s)"

definition other_malloc :: "platform \<Rightarrow> u64 \<Rightarrow> machine \<Rightarrow> machine" where
  "other_malloc P sz s = (case lr_malloc P sz [] s of Some (p, es, s') \<Rightarrow> s' | None \<Rightarrow> s)"

text \<open>
  Six calls \<open>malloc(4096)\<close> on the fresh allocator: the three superblocks \<open>0x200000\<close>,
  \<open>0x300000\<close>, \<open>0x400000\<close> of the descriptors \<open>0x10000\<close>, \<open>0x10080\<close>, \<open>0x10100\<close> are
  full, and the heap has no active descriptor.
\<close>

definition aba_machine :: machine where
  "aba_machine = (other_malloc aba_platform 4096 ^^ 6) aba_fresh"

text \<open>
  A thread that frees block 0 of superblock \<open>0x200000\<close>, stopped in \<open>ListPushPartial\<close>
  before its first compare-exchange: it has updated the anchor, loaded the head of the
  partial list (counter 0, so its \<open>newHead\<close> is \<open>{0x10000, 1}\<close>) and stored that head in
  \<open>nextPartial\<close>. When it goes on, its compare-exchange fails if the head has changed,
  reloads the head, and the loop runs again with the same \<open>newHead\<close>.
\<close>

definition aba_free_paused :: "machine \<Rightarrow> machine" where
  "aba_free_paused s =
     (case lr_free_loop 0x10000 0x200000 0x200000 (anchor (descs s 0x10000)) [] s of
        Some (r, es, s1) \<Rightarrow> upd_desc 0x10000 (\<lambda>v. v\<lparr>nextPartial := partialList (Heaps s1 1)\<rparr>) s1
      | None \<Rightarrow> s)"

definition aba_free_resumed :: "machine \<Rightarrow> machine" where
  "aba_free_resumed s =
     (case ListPushPartial_loop 1 \<lparr>desc = 0x10000, counter = 1\<rparr> (partialList (Heaps s 1)) [] s of
        Some (es, s') \<Rightarrow> s'
      | None \<Rightarrow> s)"

text \<open>
  The state in which a second thread starts \<open>malloc(4096)\<close>: the first thread is stopped,
  and two other threads have freed block 0 of \<open>0x300000\<close> and block 0 of \<open>0x400000\<close>.
  While the second thread is stopped before the compare-exchange of \<open>ListPopPartial\<close>,
  the first thread finishes its push, three threads complete \<open>malloc(4096)\<close>, and one
  frees block 1 of \<open>0x400000\<close>.
\<close>

definition aba_before :: machine where
  "aba_before = other_free 0x400000 (other_free 0x300000 (aba_free_paused aba_machine))"

definition aba_others :: "machine \<Rightarrow> machine" where
  "aba_others =
     other_free 0x401000 \<circ> other_malloc aba_platform 4096 \<circ> other_malloc aba_platform 4096 \<circ>
     other_malloc aba_platform 4096 \<circ> aba_free_resumed"

text \<open>
  What \<open>MallocFromPartial\<close> does with the descriptor \<open>d\<close> it has popped when no other
  thread runs after the pop: the reservation in the anchor, the pop of the block, and
  \<open>UpdateActive\<close> when credits were reserved.
\<close>

definition after_pop :: "nat \<Rightarrow> ptr \<Rightarrow> machine \<Rightarrow> ptr \<times> machine" where
  "after_pop h d s =
     (let oldAnchor = anchor (descs s d);
          credits = min (ucast (count oldAnchor) - 1) CREDITS_MAX;
          a1 = oldAnchor\<lparr>count := count oldAnchor - 1 - ucast credits,
                         state := (if credits > 0 then SB_ACTIVE else SB_FULL)\<rparr>;
          p = superblock (descs s d) + ucast (avail a1) * sc_blockSize (sizeclass (Heaps s (the (heap (descs s d)))));
          a2 = a1\<lparr>avail := ucast (load64 (mem s) p), tag := tag a1 + 1\<rparr>;
          s5 = upd_desc d (\<lambda>x. x\<lparr>anchor := a2\<rparr>) s
      in (p, if credits > 0 then upd_heap h (\<lambda>x. x\<lparr>active := MakeActive d (credits - 1)\<rparr>) s5 else s5))"

text \<open>
  The part of a state the race depends on: class 1 has the active pointer \<open>act\<close> and the
  partial-list head \<open>oh\<close>, and each of the three descriptors \<open>d\<close> has the state and count
  \<open>an d\<close>, the link \<open>nx d\<close>, and is registered for the two pages of its superblock.
\<close>

definition aba_desc_ok ::
  "machine \<Rightarrow> ptr \<Rightarrow> ptr \<Rightarrow> SuperblockState \<times> 25 word \<Rightarrow> DescriptorNode \<Rightarrow> bool" where
  "aba_desc_ok s d sb a n \<longleftrightarrow>
     state (anchor (descs s d)) = fst a \<and> count (anchor (descs s d)) = snd a \<and>
     nextPartial (descs s d) = n \<and> superblock (descs s d) = sb \<and>
     heap (descs s d) = Some 1 \<and> blockSize (descs s d) = 4096 \<and> maxcount (descs s d) = 2 \<and>
     sPageMap s (drop_bit 12 sb) = d \<and> sPageMap s (drop_bit 12 sb + 1) = d"

definition aba_ok ::
  "machine \<Rightarrow> (ptr \<Rightarrow> SuperblockState \<times> 25 word) \<Rightarrow> (ptr \<Rightarrow> DescriptorNode) \<Rightarrow> DescriptorNode \<Rightarrow> ptr \<Rightarrow> bool" where
  "aba_ok s an nx oh act \<longleftrightarrow>
     MallocInit s \<and> active (Heaps s 1) = act \<and> sizeclass (Heaps s 1) = aba_sizeclass \<and>
     partialList (Heaps s 1) = oh \<and>
     aba_desc_ok s 0x10000 0x200000 (an 0x10000) (nx 0x10000) \<and>
     aba_desc_ok s 0x10080 0x300000 (an 0x10080) (nx 0x10080) \<and>
     aba_desc_ok s 0x10100 0x400000 (an 0x10100) (nx 0x10100)"
section \<open>Constants and runs without interference\<close>

lemma CREDITS_MAX_val: "CREDITS_MAX = 64"
  by (simp add: CREDITS_MAX_def)

lemma CREDITS_MASK_val: "CREDITS_MASK = 63"
  by (simp add: CREDITS_MASK_def)

lemma PAGE_val: "PAGE = 4096"
  by (simp add: PAGE_def LG_PAGE_def)

lemma page_offsets_8192: "page_offsets 8192 = [0, 4096]"
  by (simp add: page_offsets_def PAGE_val upt_rec)

lemma fold_SetPageInfo:
  "fold (\<lambda>idx. SetPageInfo (p + idx) v) offs s =
     s\<lparr>sPageMap := (\<lambda>k. if k \<in> (\<lambda>idx. drop_bit LG_PAGE (p + idx)) ` set offs then v else sPageMap s k)\<rparr>"
proof (induction offs arbitrary: s)
  case Nil
  then show ?case by simp
next
  case (Cons a offs)
  show ?case
    by (simp add: Cons.IH) (auto simp: SetPageInfo_def fun_eq_iff)
qed

lemma UpdatePageMap_eq:
  "UpdatePageMap hp p v s =
     s\<lparr>sPageMap := (\<lambda>k. if k \<in> (\<lambda>idx. drop_bit LG_PAGE (p + idx)) `
                                 (case hp of None \<Rightarrow> {0} | Some h \<Rightarrow> set (page_offsets (sbSize (sizeclass (Heaps s h)))))
                         then v else sPageMap s k)\<rparr>"
  by (cases hp) (auto simp: UpdatePageMap_def fold_SetPageInfo SetPageInfo_def fun_eq_iff)

lemma DescRetire_quiet:
  "DescRetire d [] s =
     Some ([], (upd_desc d (\<lambda>x. x\<lparr>nextFree := AvailDesc s\<rparr>) s)
                 \<lparr>AvailDesc := \<lparr>desc = d, counter = counter (AvailDesc s) + 1\<rparr>\<rparr>)"
  unfolding DescRetire_def
  by (subst DescRetire_loop.simps) (simp add: upd_desc_def)

lemma DescAlloc_quiet:
  "desc (AvailDesc s) \<noteq> nullptr \<Longrightarrow>
   DescAlloc [] s =
     Some (desc (AvailDesc s), [],
           s\<lparr>AvailDesc := (nextFree (descs s (desc (AvailDesc s))))\<lparr>counter := counter (AvailDesc s)\<rparr>\<rparr>)"
  unfolding DescAlloc_def
  by (subst DescAlloc_loop.simps) simp


lemma ListPopPartial_quiet:
  "ListPopPartial h [] s =
     (if desc (partialList (Heaps s h)) = nullptr then Some (nullptr, [], s)
      else Some (desc (partialList (Heaps s h)), [],
                 upd_heap h (\<lambda>x. x\<lparr>partialList :=
                    (nextPartial (descs s (desc (partialList (Heaps s h)))))
                      \<lparr>counter := counter (partialList (Heaps s h))\<rparr>\<rparr>) s))"
  unfolding ListPopPartial_def
  by (subst ListPopPartial_loop.simps) simp

lemma ListPushPartial_quiet:
  "heap (descs s d) = Some h \<Longrightarrow>
   ListPushPartial d [] s =
     Some ([], upd_heap h (\<lambda>x. x\<lparr>partialList := \<lparr>desc = d, counter = counter (partialList (Heaps s h)) + 1\<rparr>\<rparr>)
                 (upd_desc d (\<lambda>x. x\<lparr>nextPartial := partialList (Heaps s h)\<rparr>) s))"
  unfolding ListPushPartial_def
  by (simp, subst ListPushPartial_loop.simps) (simp add: upd_desc_def Let_def)

lemma UpdateActive_quiet:
  "UpdateActive h d credits [] s =
     Some ([], upd_heap h (\<lambda>x. x\<lparr>active := MakeActive d (credits - 1)\<rparr>) s)"
  unfolding UpdateActive_def by simp

lemma lr_malloc_large_quiet:
  assumes "MallocInit s" "GetSizeClass P sz = 0" "desc (AvailDesc s) \<noteq> nullptr"
  shows "lr_malloc P sz [] s =
     (let d = desc (AvailDesc s);
          sb = fst (PageAlloc (PAGE_CEILING sz) s)
      in Some (sb, [],
           SetPageInfo sb d
             (upd_desc d (\<lambda>x. x\<lparr>heap := None, blockSize := PAGE_CEILING sz, maxcount := 1, superblock := sb,
                                   anchor := \<lparr>state = SB_FULL, avail = 0, count = 0, tag = 0\<rparr>\<rparr>)
                (snd (PageAlloc (PAGE_CEILING sz) s))
                  \<lparr>AvailDesc := (nextFree (descs s d))\<lparr>counter := counter (AvailDesc s)\<rparr>\<rparr>)))"
  using assms
  by (cases "page_supply s")
     (simp_all add: lr_malloc_def GetProcHeap_def DescAlloc_quiet Let_def PageAlloc_def upd_desc_def
        RegisterDesc_def UpdatePageMap_def SetPageInfo_def)


lemma load_store_bytes:
  "length bs \<le> 2 ^ 64 \<Longrightarrow> load_bytes (store_bytes m a bs) a (length bs) = bs"
  apply (simp add: load_bytes_def store_bytes_def)
  apply (rule nth_equalityI)
   apply simp
  apply (simp add: unat_of_nat)
  done







lemma byte_step: "ucast (ucast w :: 8 word) OR push_bit 8 (drop_bit 8 w) = (w :: u64)"
proof (rule bit_word_eqI)
  fix n assume "n < LENGTH(64)"
  then show "bit (ucast (ucast w :: 8 word) OR push_bit 8 (drop_bit 8 w)) n = bit w n"
    by (cases "n < 8") (auto simp: bit_simps)
qed

lemma byte_last: "ucast (ucast (drop_bit 56 w) :: 8 word) = (drop_bit 56 w :: u64)"
  by (rule bit_word_eqI) (auto simp: bit_simps dest: bit_imp_le_length)

lemma u64_of_bytes_of: "u64_of_bytes (bytes_of_u64 v) = v"
proof -
  have s: "ucast (ucast (drop_bit k v) :: 8 word) OR push_bit 8 (drop_bit (k + 8) v) = drop_bit k v" for k
    using byte_step [of "drop_bit k v"] by (simp add: add.commute)
  show ?thesis
    unfolding u64_of_bytes_def bytes_of_u64_def
    using s [of 48] s [of 40] s [of 32] s [of 24] s [of 16] s [of 8] s [of 0]
    by (simp add: byte_last)
qed

lemma load64_store64: "load64 (store64 m a v) a = v"
proof -
  have len: "length (bytes_of_u64 v) = 8"
    by (simp add: bytes_of_u64_def)
  have "load_bytes (store_bytes m a (bytes_of_u64 v)) a (length (bytes_of_u64 v)) = bytes_of_u64 v"
    by (rule load_store_bytes) (simp add: len)
  then show ?thesis
    unfolding load64_def store64_def len by (simp add: u64_of_bytes_of)
qed


lemma MallocFromActive_null_quiet:
  "active (Heaps s h) = nullptr \<Longrightarrow> MallocFromActive h [] s = Some (nullptr, [], s)"
  unfolding MallocFromActive_def
  by (simp, subst MallocFromActive_reserve.simps) simp

lemma MallocFromActive_reserve_quiet:
  "a \<noteq> nullptr \<Longrightarrow> active (Heaps s h) = a \<Longrightarrow>
   MallocFromActive_reserve h a [] s =
     Some (Some (a, a AND CREDITS_MASK), [],
           upd_heap h (\<lambda>x. x\<lparr>active := (if a AND CREDITS_MASK > 0
                                         then MakeActive (a AND NOT CREDITS_MASK) ((a AND CREDITS_MASK) - 1)
                                         else nullptr)\<rparr>) s)"
  by (subst MallocFromActive_reserve.simps) (simp add: GetActive_def)

lemma MallocFromActive_pop_quiet:
  "anchor (descs s d) = oldAnchor \<Longrightarrow>
   MallocFromActive_pop d oc c oldAnchor [] s =
     (let (p, newAnchor, c') = MallocFromActive_step (descs s d) (mem s) oc c oldAnchor
      in Some ((p, c'), [], upd_desc d (\<lambda>x. x\<lparr>anchor := newAnchor\<rparr>) s))"
  by (subst MallocFromActive_pop.simps) (simp split: prod.splits)

lemma MallocFromActive_quiet:
  assumes "active (Heaps s h) \<noteq> nullptr"
  shows "MallocFromActive h [] s =
     (let a = active (Heaps s h);
          oldCredits = a AND CREDITS_MASK;
          d = a AND NOT CREDITS_MASK;
          newActive = (if oldCredits > 0 then MakeActive d (oldCredits - 1) else nullptr);
          (p, newAnchor, credits) = MallocFromActive_step (descs s d) (mem s) oldCredits 0 (anchor (descs s d));
          s4 = upd_desc d (\<lambda>x. x\<lparr>anchor := newAnchor\<rparr>) (upd_heap h (\<lambda>x. x\<lparr>active := newActive\<rparr>) s)
      in if credits > 0
         then Some (p, [], upd_heap h (\<lambda>x. x\<lparr>active := MakeActive d (credits - 1)\<rparr>) s4)
         else Some (p, [], s4))"
proof -
  let ?a = "active (Heaps s h)"
  let ?s2 = "upd_heap h (\<lambda>x. x\<lparr>active := (if ?a AND CREDITS_MASK > 0
                                         then MakeActive (?a AND NOT CREDITS_MASK) ((?a AND CREDITS_MASK) - 1)
                                         else nullptr)\<rparr>) s"
  have d2: "descs ?s2 = descs s" "mem ?s2 = mem s"
    by (simp_all add: upd_heap_def)
  show ?thesis
    unfolding MallocFromActive_def
    by (simp add: MallocFromActive_reserve_quiet [OF assms refl] Let_def
          MallocFromActive_pop_quiet [OF refl] d2 UpdateActive_quiet split: prod.splits)
qed



lemma unat_ucast_25_64: "unat (ucast (c :: 25 word) :: u64) = unat c"
  by (simp add: unsigned_ucast_eq take_bit_nat_eq_self unsigned_less [where 'a = nat and w = c, simplified] less_trans [OF unsigned_less [where 'a = nat and w = c, simplified]])


lemma length_bytes_of_u64: "length (bytes_of_u64 v) = 8"
  by (simp add: bytes_of_u64_def)

lemma unat_neg: "w \<noteq> 0 \<Longrightarrow> unat (- w) = 2 ^ 64 - unat (w :: u64)"
  using unat_sub_if' [of 0 w] by (simp add: unat_gt_0)

lemma load64_store64_other:
  assumes "8 \<le> unat (b - a)" and "8 \<le> unat (a - b)"
  shows "load64 (store64 m a v) b = load64 m b"
proof -
  have far: "\<not> unat (b + of_nat i - a) < 8" if "i < 8" for i :: nat
  proof -
    have ba: "b - a \<noteq> 0" using assms(1) by auto
    have "unat (a - b) = 2 ^ 64 - unat (b - a)"
      using unat_neg [OF ba] by (simp only: minus_diff_eq)
    with assms(2) have le: "unat (b - a) + 8 \<le> 2 ^ 64" by simp
    have u: "unat (b - a + of_nat i) = unat (b - a) + i"
      using le that by (simp add: unat_word_ariths unat_of_nat)
    have e: "b + of_nat i - a = b - a + of_nat i" by simp
    show ?thesis
      by (simp only: e u) (use assms(1) in simp)
  qed
  have "load_bytes (store_bytes m a (bytes_of_u64 v)) b 8 = load_bytes m b 8"
    unfolding load_bytes_def store_bytes_def
    by (rule map_cong [OF refl]) (simp add: far length_bytes_of_u64)
  then show ?thesis
    by (simp add: load64_def store64_def)
qed

lemma block_apart:
  fixes bsz :: u64
  assumes "i \<noteq> j" "i < M" "j < M" "8 \<le> unat bsz" "M * unat bsz \<le> 2 ^ 64"
  shows "8 \<le> unat ((sb + of_nat i * bsz) - (sb + of_nat j * bsz))"
proof -
  have mul: "unat (of_nat k * bsz :: u64) = k * unat bsz" if "0 < k" "k < M" for k
  proof -
    have "0 < unat bsz" using assms(4) by simp
    then have "k * unat bsz < M * unat bsz" using that by simp
    then have lt: "k * unat bsz < 2 ^ 64" using assms(5) by (rule less_le_trans)
    have "k < 2 ^ 64"
    proof -
      have "k * 1 \<le> k * unat bsz"
        by (rule mult_le_mono2) (use \<open>0 < unat bsz\<close> in simp)
      then have "k * 1 < 2 ^ 64" using lt by (rule le_less_trans)
      then show ?thesis by simp
    qed
    then show ?thesis using lt by (simp add: unat_word_ariths unat_of_nat)
  qed
  show ?thesis
  proof (cases "j < i")
    case True
    then have "(sb + of_nat i * bsz) - (sb + of_nat j * bsz) = of_nat (i - j) * bsz"
      by (simp add: of_nat_diff algebra_simps)
    moreover have "unat (of_nat (i - j) * bsz :: u64) = (i - j) * unat bsz"
      using True assms(2) by (intro mul) simp_all
    moreover have "8 \<le> (i - j) * unat bsz"
      using True assms(4) by (metis One_nat_def Suc_leI le_trans mult.commute mult_le_mono2 nat_mult_1_right zero_less_diff)
    ultimately show ?thesis by simp
  next
    case False
    with assms(1) have lt: "i < j" by simp
    then have eq: "(sb + of_nat i * bsz) - (sb + of_nat j * bsz) = - (of_nat (j - i) * bsz)"
      by (simp add: of_nat_diff algebra_simps)
    have m: "unat (of_nat (j - i) * bsz :: u64) = (j - i) * unat bsz"
      using lt assms(3) by (intro mul) simp_all
    have pos: "8 \<le> (j - i) * unat bsz"
      using lt assms(4) by (metis One_nat_def Suc_leI le_trans mult.commute mult_le_mono2 nat_mult_1_right zero_less_diff)
    have "(j - i) * unat bsz + unat bsz \<le> M * unat bsz"
    proof -
      have "j - i + 1 \<le> M" using lt assms(3) by simp
      then have "(j - i + 1) * unat bsz \<le> M * unat bsz" by (rule mult_le_mono1)
      then show ?thesis by (simp add: algebra_simps)
    qed
    with assms(5) assms(4) have up: "(j - i) * unat bsz + 8 \<le> 2 ^ 64" by simp
    have nz: "of_nat (j - i) * bsz \<noteq> (0 :: u64)"
      using m pos by (metis not_numeral_le_zero unat_0)
    have "unat (- (of_nat (j - i) * bsz)) = 2 ^ 64 - (j - i) * unat bsz"
      using unat_neg [OF nz] by (simp only: m)
    with up eq show ?thesis by simp
  qed
qed

lemma lr_free_loop_quiet:
  "anchor (descs s d) = oldAnchor \<Longrightarrow> blockSize (descs s d) \<noteq> 0 \<Longrightarrow>
   lr_free_loop d sb p oldAnchor [] s =
     (let bsz = blockSize (descs s d);
          idx = (p - sb) div bsz;
          p' = superblock (descs s d) + idx * bsz;
          newAnchor = lr_free_step (maxcount (descs s d)) idx oldAnchor
      in Some ((oldAnchor, newAnchor), [],
               upd_desc d (\<lambda>x. x\<lparr>anchor := newAnchor\<rparr>)
                 (s\<lparr>mem := store64 (mem s) p' (ucast (avail oldAnchor))\<rparr>)))"
  by (subst lr_free_loop.simps) (simp add: Let_def)

lemma lr_free_small_quiet:
  assumes "p \<noteq> nullptr" "GetDescriptorForPtr p s = d" "d \<noteq> nullptr" "heap (descs s d) = Some h"
    "blockSize (descs s d) \<noteq> 0"
  shows "lr_free p [] s =
     (let sb = superblock (descs s d);
          bsz = blockSize (descs s d);
          idx = (p - sb) div bsz;
          oldAnchor = anchor (descs s d);
          newAnchor = lr_free_step (maxcount (descs s d)) idx oldAnchor;
          s2 = upd_desc d (\<lambda>x. x\<lparr>anchor := newAnchor\<rparr>)
                 (s\<lparr>mem := store64 (mem s) (sb + idx * bsz) (ucast (avail oldAnchor))\<rparr>)
      in if state newAnchor = SB_EMPTY
         then Some ([], PageFree sb (sbSize (sizeclass (Heaps s h))) (UnregisterDesc (Some h) sb s2))
         else if state oldAnchor = SB_FULL then HeapPushPartial d [] s2
         else Some ([], s2))"
  using assms
  by (simp add: lr_free_def Let_def lr_free_loop_quiet RemoveEmptyDesc_def ListRemoveEmptyDesc_def
        UnregisterDesc_def UpdatePageMap_eq upd_desc_def)

lemma MallocFromPartial_empty_quiet:
  "desc (partialList (Heaps s h)) = nullptr \<Longrightarrow> MallocFromPartial h [] s = Some (nullptr, [], s)"
  by (subst MallocFromPartial.simps) (simp add: HeapPopPartial_def ListPopPartial_quiet)

lemma MallocFromNewSB_quiet_ok:
  assumes "desc (AvailDesc s) \<noteq> nullptr" "active (Heaps s h) = nullptr"
  shows "\<exists>s'. MallocFromNewSB h [] s = Some (fst (PageAlloc (sbSize (sizeclass (Heaps s h))) s), [], s') \<and>
    AvailDesc s' = (nextFree (descs s (desc (AvailDesc s))))\<lparr>counter := counter (AvailDesc s)\<rparr> \<and>
    descs s' = (descs s)(desc (AvailDesc s) := (descs s (desc (AvailDesc s)))
        \<lparr>heap := Some h, blockSize := sc_blockSize (sizeclass (Heaps s h)),
         maxcount := blockNum (sizeclass (Heaps s h)),
         superblock := fst (PageAlloc (sbSize (sizeclass (Heaps s h))) s),
         anchor := \<lparr>state = SB_ACTIVE, avail = 1,
                     count = ucast (blockNum (sizeclass (Heaps s h)) - 1 -
                                    min (blockNum (sizeclass (Heaps s h)) - 1) CREDITS_MAX),
                     tag = 0\<rparr>\<rparr>) \<and>
    MallocInit s' = MallocInit s \<and>
    Heaps s' = (Heaps s)(h := (Heaps s h)
        \<lparr>active := MakeActive (desc (AvailDesc s)) (min (blockNum (sizeclass (Heaps s h)) - 1) CREDITS_MAX - 1)\<rparr>) \<and>
    mem s' = format_superblock (fst (PageAlloc (sbSize (sizeclass (Heaps s h))) s))
               (sc_blockSize (sizeclass (Heaps s h))) (blockNum (sizeclass (Heaps s h))) (mem s) \<and>
    sPageMap s' = (\<lambda>k. if k \<in> (\<lambda>idx. drop_bit LG_PAGE (fst (PageAlloc (sbSize (sizeclass (Heaps s h))) s) + idx)) `
                              set (page_offsets (sbSize (sizeclass (Heaps s h))))
                        then desc (AvailDesc s) else sPageMap s k) \<and>
    page_supply s' = tl (page_supply s) \<and>
    page_calls s' = page_calls s @ [PageAlloc_call (sbSize (sizeclass (Heaps s h)))
                                      (fst (PageAlloc (sbSize (sizeclass (Heaps s h))) s))]"
  using assms
  by (cases "page_supply s")
     (simp_all add: MallocFromNewSB_def DescAlloc_quiet Let_def PageAlloc_def upd_desc_def upd_heap_def
       RegisterDesc_def UpdatePageMap_eq fun_eq_iff)

lemma lr_malloc_fresh_quiet:
  assumes "MallocInit s" "GetSizeClass P sz = h" "h \<noteq> 0" "active (Heaps s h) = nullptr"
    "desc (partialList (Heaps s h)) = nullptr" "desc (AvailDesc s) \<noteq> nullptr"
    "page_supply s = sb # rest" "sb \<noteq> nullptr"
  shows "lr_malloc P sz [] s = MallocFromNewSB h [] s"
proof -
  have "\<exists>s'. MallocFromNewSB h [] s = Some (sb, [], s')"
    using MallocFromNewSB_quiet_ok [OF assms(6) assms(4)] assms(7)
    by (auto simp: PageAlloc_def)
  then show ?thesis
    using assms
    by (simp add: lr_malloc_def GetProcHeap_def Let_def)
       (subst lr_malloc_loop.simps, auto simp: MallocFromActive_null_quiet MallocFromPartial_empty_quiet)
qed

lemma MallocFromActive_reserve_idle:
  "a \<noteq> nullptr \<Longrightarrow> active (Heaps s h) = a \<Longrightarrow>
   MallocFromActive_reserve h a (Env id # es) s =
     Some (Some (a, a AND CREDITS_MASK), es,
           upd_heap h (\<lambda>x. x\<lparr>active := (if a AND CREDITS_MASK > 0
                                         then MakeActive (a AND NOT CREDITS_MASK) ((a AND CREDITS_MASK) - 1)
                                         else nullptr)\<rparr>) s)"
  by (subst MallocFromActive_reserve.simps) (simp add: GetActive_def)

lemma MallocFromActive_pop_idle:
  "anchor (descs s d) = oldAnchor \<Longrightarrow>
   MallocFromActive_pop d oc c oldAnchor (Env id # es) s =
     (let (p, newAnchor, c') = MallocFromActive_step (descs s d) (mem s) oc c oldAnchor
      in Some ((p, c'), es, upd_desc d (\<lambda>x. x\<lparr>anchor := newAnchor\<rparr>) s))"
  by (subst MallocFromActive_pop.simps) (simp split: prod.splits)

lemma UpdateActive_after_interference:
  "UpdateActive h d credits [Env f] s =
     Some ([], upd_heap h (\<lambda>x. x\<lparr>active := MakeActive d (credits - 1)\<rparr>) (f s))"
  unfolding UpdateActive_def by simp

lemma MallocFromActive_idle_then:
  assumes "active (Heaps s h) \<noteq> nullptr"
  shows "MallocFromActive h [Env id, Env id, Env id, Env id, Env f] s =
     (let a = active (Heaps s h);
          oldCredits = a AND CREDITS_MASK;
          d = a AND NOT CREDITS_MASK;
          newActive = (if oldCredits > 0 then MakeActive d (oldCredits - 1) else nullptr);
          (p, newAnchor, credits) = MallocFromActive_step (descs s d) (mem s) oldCredits 0 (anchor (descs s d));
          s4 = upd_desc d (\<lambda>x. x\<lparr>anchor := newAnchor\<rparr>) (upd_heap h (\<lambda>x. x\<lparr>active := newActive\<rparr>) s)
      in if credits > 0
         then Some (p, [], upd_heap h (\<lambda>x. x\<lparr>active := MakeActive d (credits - 1)\<rparr>) (f s4))
         else Some (p, [Env f], s4))"
proof -
  let ?a = "active (Heaps s h)"
  let ?s2 = "upd_heap h (\<lambda>x. x\<lparr>active := (if ?a AND CREDITS_MASK > 0
                                         then MakeActive (?a AND NOT CREDITS_MASK) ((?a AND CREDITS_MASK) - 1)
                                         else nullptr)\<rparr>) s"
  have d2: "descs ?s2 = descs s" "mem ?s2 = mem s"
    by (simp_all add: upd_heap_def)
  show ?thesis
    unfolding MallocFromActive_def
    by (simp add: MallocFromActive_reserve_idle [OF assms refl] Let_def
          MallocFromActive_pop_idle [OF refl] d2 UpdateActive_after_interference split: prod.splits)
qed

lemma UpdateActive_loop_quiet:
  "anchor (descs s d) = oldAnchor \<Longrightarrow>
   UpdateActive_loop d credits oldAnchor [] s =
     Some ([], upd_desc d (\<lambda>x. x\<lparr>anchor := oldAnchor\<lparr>count := count oldAnchor + ucast credits,
                                                      state := SB_PARTIAL\<rparr>\<rparr>) s)"
  by (subst UpdateActive_loop.simps) simp

lemma ex_active_facts:
  "active (Heaps ex_machine_active (Suc 0)) = 0x10180"
  "descs ex_machine_active 0x10180 =
       \<lparr>nextFree = \<lparr>desc = nullptr, counter = 0\<rparr>, nextPartial = \<lparr>desc = nullptr, counter = 0\<rparr>,
        anchor = \<lparr>state = SB_ACTIVE, avail = 3, count = 100, tag = 7\<rparr>,
        superblock = 0x200000, heap = Some 1, blockSize = 16, maxcount = 512\<rparr>"
  "load64 (mem ex_machine_active) 0x200030 = 4"
  by (simp_all add: ex_machine_active_def load64_store64)




section \<open>free of the last block of a superblock\<close>

lemma ex_last_block:
  "GetDescriptorForPtr 0x200000 ex_machine_last_block = 0x10180"
  "descs ex_machine_last_block 0x10180 =
     \<lparr>nextFree = \<lparr>desc = nullptr, counter = 0\<rparr>, nextPartial = \<lparr>desc = nullptr, counter = 0\<rparr>,
      anchor = \<lparr>state = SB_PARTIAL, avail = 1, count = 7, tag = 3\<rparr>,
      superblock = 0x200000, heap = Some 1, blockSize = 1024, maxcount = 8\<rparr>"
  "AvailDesc ex_machine_last_block = \<lparr>desc = 0x10000, counter = 0\<rparr>"
  "page_calls ex_machine_last_block = [PageAlloc_call 8192 0x200000]"
  "sizeclass (Heaps ex_machine_last_block (Suc 0)) = ex_sizeclass"
  by (simp_all add: ex_machine_last_block_def ex_machine_def GetDescriptorForPtr_def GetPageInfo_def LG_PAGE_def)

text \<open>
  Claim C1 says that \<open>free\<close>, when its anchor update reaches \<open>SB_EMPTY\<close>, also retires the
  descriptor with \<open>DescRetire\<close>. On the example machine \<open>free(0x200000)\<close> makes the
  descriptor \<open>0x10180\<close> empty and leaves the recycle list as it was (head \<open>0x10000\<close>,
  counter 0; the descriptor's \<open>nextFree\<close> still null), while \<open>DescRetire(0x10180)\<close> would
  make the descriptor the head, with counter 1.
\<close>

theorem free_last_block_not_retired_counterexample:
  "map_option (\<lambda>(es', s'). (state (anchor (descs s' 0x10180)), AvailDesc s', nextFree (descs s' 0x10180)))
      (lr_free 0x200000 [] ex_machine_last_block) =
     Some (SB_EMPTY, \<lparr>desc = 0x10000, counter = 0\<rparr>, \<lparr>desc = nullptr, counter = 0\<rparr>) \<and>
   map_option (\<lambda>(es', s'). (AvailDesc s', nextFree (descs s' 0x10180)))
      (DescRetire 0x10180 [] ex_machine_last_block) =
     Some (\<lparr>desc = 0x10180, counter = 1\<rparr>, \<lparr>desc = 0x10000, counter = 0\<rparr>)"
  by (simp add: lr_free_small_quiet [of "0x200000" ex_machine_last_block "0x10180" 1] ex_last_block
        Let_def lr_free_step_def DescRetire_quiet upd_desc_def PageFree_def UnregisterDesc_def
        UpdatePageMap_eq)

text \<open>
  Claim C1, amended. When a call of \<open>free\<close> (running alone) on a small-class pointer
  moves the anchor to \<open>SB_EMPTY\<close> (the count was \<open>maxcount - 1\<close>), it unregisters every
  page of the superblock from the page map, returns the superblock to the page provider
  with \<open>PageFree\<close>, and calls \<open>RemoveEmptyDesc\<close>, which does nothing: the heaps with
  their partial lists and every \<open>nextPartial\<close> link are unchanged. It does not call
  \<open>DescRetire\<close>: \<open>AvailDesc\<close> and every \<open>nextFree\<close> link are unchanged.
\<close>

theorem free_last_block_releases_superblock:
  fixes s :: machine and p :: ptr
  defines "d \<equiv> GetDescriptorForPtr p s"
  defines "sb \<equiv> superblock (descs s d)"
  defines "oldAnchor \<equiv> anchor (descs s d)"
  assumes p: "p \<noteq> nullptr" and d: "d \<noteq> nullptr" and small: "heap (descs s d) = Some h"
    and bsz: "blockSize (descs s d) \<noteq> 0"
    and last: "ucast (count oldAnchor) = maxcount (descs s d) - 1"
  shows "\<exists>s'. lr_free p [] s = Some ([], s') \<and>
           state (anchor (descs s' d)) = SB_EMPTY \<and>
           count (anchor (descs s' d)) = count oldAnchor \<and>
           list_all (\<lambda>idx. GetDescriptorForPtr (sb + idx) s' = nullptr)
                    (page_offsets (sbSize (sizeclass (Heaps s h)))) \<and>
           page_calls s' = page_calls s @ [PageFree_call sb (sbSize (sizeclass (Heaps s h)))] \<and>
           AvailDesc s' = AvailDesc s \<and>
           (\<lambda>x. nextFree (descs s' x)) = (\<lambda>x. nextFree (descs s x)) \<and>
           Heaps s' = Heaps s \<and>
           (\<lambda>x. nextPartial (descs s' x)) = (\<lambda>x. nextPartial (descs s x))"
proof -
  have dd: "GetDescriptorForPtr p s = d"
    by (simp add: d_def)
  have run: "lr_free p [] s =
     Some ([], PageFree sb (sbSize (sizeclass (Heaps s h)))
                 (UnregisterDesc (Some h) sb
                    (upd_desc d (\<lambda>x. x\<lparr>anchor := oldAnchor\<lparr>avail := ucast ((p - sb) div blockSize (descs s d)),
                                                            state := SB_EMPTY\<rparr>\<rparr>)
                       (s\<lparr>mem := store64 (mem s) (sb + (p - sb) div blockSize (descs s d) * blockSize (descs s d))
                                        (ucast (avail oldAnchor))\<rparr>))))"
    using last
    by (simp add: lr_free_small_quiet [OF p dd d small bsz] Let_def lr_free_step_def
          sb_def [symmetric] oldAnchor_def [symmetric])
  show ?thesis
    unfolding run
    by (simp add: upd_desc_def PageFree_def UnregisterDesc_def UpdatePageMap_eq GetDescriptorForPtr_def
          GetPageInfo_def list_all_iff fun_eq_iff)
qed


theorem free_last_block_releases_superblock_witness:
  "(0x200000 :: ptr) \<noteq> nullptr \<and> GetDescriptorForPtr 0x200000 ex_machine_last_block \<noteq> nullptr \<and>
   heap (descs ex_machine_last_block 0x10180) = Some 1 \<and>
   blockSize (descs ex_machine_last_block 0x10180) \<noteq> 0 \<and>
   (ucast (count (anchor (descs ex_machine_last_block 0x10180))) :: u64) =
      maxcount (descs ex_machine_last_block 0x10180) - 1 \<and>
   (\<exists>s'. lr_free 0x200000 [] ex_machine_last_block = Some ([], s') \<and>
      state (anchor (descs s' 0x10180)) = SB_EMPTY \<and>
      GetDescriptorForPtr 0x200000 s' = nullptr \<and> GetDescriptorForPtr 0x201000 s' = nullptr \<and>
      page_calls s' = [PageAlloc_call 8192 0x200000, PageFree_call 0x200000 8192] \<and>
      AvailDesc s' = \<lparr>desc = 0x10000, counter = 0\<rparr> \<and>
      partialList (Heaps s' 1) = \<lparr>desc = 0x10180, counter = 1\<rparr>)"
proof -
  have h: "Heaps ex_machine_last_block (Suc 0) =
      \<lparr>active = nullptr, partialList = \<lparr>desc = 0x10180, counter = 1\<rparr>, sizeclass = ex_sizeclass\<rparr>"
    by (simp add: ex_machine_last_block_def)
  show ?thesis
    using free_last_block_releases_superblock [of "0x200000" ex_machine_last_block 1]
    by (simp add: ex_last_block h ex_sizeclass_def page_offsets_8192) (auto simp: h)
qed

section \<open>UpdateActive\<close>

text \<open>
  Claim C2 says that \<open>UpdateActive\<close> installs \<open>(desc, credits - 1)\<close> only when
  \<open>heap.active\<close> was null. The code's strong compare-exchange expects the value that the
  load just before it read, not null, so it also succeeds when an active descriptor is
  installed, and overwrites it. First conjunct: the heap's active descriptor is
  \<open>0x10180\<close> and \<open>UpdateActive(heap, 0x10080, 5)\<close>, running alone, replaces it by
  \<open>(0x10080, 4)\<close>; the anchor is not given the credits and nothing is pushed on the
  partial list. Third conjunct, two threads: a thread takes the last credit of \<open>0x10180\<close>
  in \<open>MallocFromActive\<close> and reserves 64 credits; before its \<open>UpdateActive\<close> loads
  \<open>heap.active\<close> another thread completes \<open>malloc(16)\<close>, which installs the fresh
  descriptor \<open>0x10000\<close> with 63 credits; \<open>UpdateActive\<close> then installs \<open>(0x10180, 63)\<close>
  over it. Descriptor \<open>0x10000\<close> is left in state \<open>SB_ACTIVE\<close> with its 64 credits
  reserved, neither active nor on the partial list.
\<close>

theorem UpdateActive_overwrites_installed_active:
  "map_option (\<lambda>(es', s'). (active (Heaps s' 1), anchor (descs s' 0x10080), partialList (Heaps s' 1)))
      (UpdateActive 1 0x10080 5 [] ex_machine_active) =
     Some (0x10084, anchor (descs ex_machine_active 0x10080), partialList (Heaps ex_machine_active 1)) \<and>
   active (Heaps ex_machine_active 1) = 0x10180 \<and>
   map_option (\<lambda>(p, es', s'). (p, active (Heaps s' 1), heap (descs s' 0x10000), anchor (descs s' 0x10000),
                                partialList (Heaps s' 1)))
      (MallocFromActive 1 [Env id, Env id, Env id, Env id, Env ex_other_thread_malloc] ex_machine_active) =
     Some (0x200030, 0x101BF, Some 1, \<lparr>state = SB_ACTIVE, avail = 1, count = 447, tag = 0\<rparr>,
           \<lparr>desc = nullptr, counter = 0\<rparr>)"
proof -
  let ?sA = ex_machine_reserved
  have first: "map_option (\<lambda>(es', s'). (active (Heaps s' 1), anchor (descs s' 0x10080), partialList (Heaps s' 1)))
      (UpdateActive 1 0x10080 5 [] ex_machine_active) =
     Some (0x10084, anchor (descs ex_machine_active 0x10080), partialList (Heaps ex_machine_active 1))"
    by (simp add: UpdateActive_quiet upd_heap_def MakeActive_def)
  have run: "MallocFromActive 1 [Env id, Env id, Env id, Env id, Env ex_other_thread_malloc] ex_machine_active =
      Some (0x200030, [], upd_heap 1 (\<lambda>x. x\<lparr>active := 0x101BF\<rparr>) (ex_other_thread_malloc ?sA))"
    by (simp add: MallocFromActive_idle_then ex_active_facts Let_def MallocFromActive_step_def
          CREDITS_MASK_val CREDITS_MAX_val MakeActive_def ex_machine_reserved_def)
  have sA: "MallocInit ?sA" "GetSizeClass ex_platform 16 = 1" "active (Heaps ?sA 1) = nullptr"
      "desc (partialList (Heaps ?sA 1)) = nullptr" "desc (AvailDesc ?sA) \<noteq> nullptr"
      "page_supply ?sA = [0x300000]" "desc (AvailDesc ?sA) = 0x10000"
      "sizeclass (Heaps ?sA (Suc 0)) = \<lparr>sc_blockSize = 16, sbSize = 8192, blockNum = 512\<rparr>"
      "partialList (Heaps ?sA (Suc 0)) = \<lparr>desc = nullptr, counter = 0\<rparr>"
    by (simp_all add: ex_machine_reserved_def upd_desc_def upd_heap_def ex_machine_active_def ex_machine_def ex_platform_def)
  have "lr_malloc ex_platform 16 [] ?sA = MallocFromNewSB 1 [] ?sA"
    by (rule lr_malloc_fresh_quiet [OF sA(1,2) _ sA(3,4,5,6)]) simp_all
  moreover from MallocFromNewSB_quiet_ok [OF sA(5) sA(3)]
  obtain s' where s': "MallocFromNewSB 1 [] ?sA = Some (0x300000, [], s')"
     "descs s' 0x10000 = (descs ?sA 0x10000)
        \<lparr>heap := Some 1, blockSize := 16, maxcount := 512, superblock := 0x300000,
         anchor := \<lparr>state = SB_ACTIVE, avail = 1, count = 447, tag = 0\<rparr>\<rparr>"
     "Heaps s' = (Heaps ?sA)(1 := (Heaps ?sA 1)\<lparr>active := 0x1003F\<rparr>)"
    by (auto simp: sA PageAlloc_def CREDITS_MAX_val MakeActive_def)
  ultimately have other: "ex_other_thread_malloc ?sA = s'"
    by (simp add: ex_other_thread_malloc_def)
  have act: "active (Heaps ex_machine_active 1) = 0x10180"
    by (simp add: ex_active_facts)
  have third: "map_option (\<lambda>(p, es', s'). (p, active (Heaps s' 1), heap (descs s' 0x10000), anchor (descs s' 0x10000),
                                partialList (Heaps s' 1)))
      (MallocFromActive 1 [Env id, Env id, Env id, Env id, Env ex_other_thread_malloc] ex_machine_active) =
     Some (0x200030, 0x101BF, Some 1, \<lparr>state = SB_ACTIVE, avail = 1, count = 447, tag = 0\<rparr>,
           \<lparr>desc = nullptr, counter = 0\<rparr>)"
    unfolding run by (simp add: other s' upd_heap_def sA)
  from first act third show ?thesis
    by (intro conjI)
qed

section \<open>posix_memalign and the alignment\<close>

lemma ex_large_memalign:
  "GetSizeClass ex_platform (max a n * 2) = 0 \<Longrightarrow>
   \<exists>s'. lr_posix_memalign ex_platform a n [] ex_machine = Some ((0, Some (ALIGN_ADDR 0x200000 a)), [], s')"
  by (simp add: lr_posix_memalign_def lr_malloc_large_quiet ex_machine_def Let_def PageAlloc_def
        GetDescriptorForPtr_def GetPageInfo_def SetPageInfo_def upd_desc_def ex_descriptor_def LG_PAGE_def)

text \<open>
  Claim C3 says that \<open>posix_memalign\<close> fails with \<open>EINVAL\<close> for every alignment that is
  not a power of two. The code does not look at the alignment: on the example machine the
  call with alignment 24 (not a power of two) returns 0 and hands out \<open>0x200000\<close>, which is
  not a multiple of 24.
\<close>

theorem posix_memalign_alignment_24_counterexample:
  "map_option fst (lr_posix_memalign ex_platform 24 5000 [] ex_machine) = Some (0, Some 0x200000) \<and>
   (24 :: u64) AND (24 - 1) \<noteq> 0 \<and> (0 :: int) \<noteq> EINVAL \<and> (0x200000 :: u64) mod 24 \<noteq> 0"
proof -
  have "GetSizeClass ex_platform (max 24 5000 * 2) = 0"
    by (simp add: ex_platform_def)
  from ex_large_memalign [OF this]
  show ?thesis
    by (auto simp: ALIGN_ADDR_def EINVAL_def)
qed

text \<open>
  Claim C3, amended. \<open>posix_memalign(&out, a, n)\<close> never returns \<open>EINVAL\<close>, whatever the
  alignment \<open>a\<close> (a power of two or not): it calls \<open>malloc(max(a, n) * 2)\<close>, returns
  \<open>ENOMEM\<close> and writes nothing when that returns null, and otherwise writes
  \<open>ALIGN_ADDR(ptr, a)\<close> to \<open>*memptr\<close> and returns 0.
\<close>

theorem posix_memalign_never_checks_alignment:
  assumes "lr_posix_memalign P a n es s = Some ((r, out), es', s')"
  shows "r \<noteq> EINVAL \<and>
         (\<exists>p es1 s1. lr_malloc P (max a n * 2) es s = Some (p, es1, s1) \<and>
            r = (if p = nullptr then ENOMEM else 0) \<and>
            out = (if p = nullptr then None else Some (ALIGN_ADDR p a)))"
  using assms
  by (auto simp: lr_posix_memalign_def Let_def ENOMEM_def EINVAL_def
           split: Option.bind_splits if_splits prod.splits)

theorem posix_memalign_never_checks_alignment_witness:
  "\<exists>s'. lr_posix_memalign ex_platform 4096 8192 [] ex_machine = Some ((0, Some 0x200000), [], s') \<and>
     (0 :: int) \<noteq> EINVAL \<and>
     (\<exists>p es1 s1. lr_malloc ex_platform (max 4096 8192 * 2) [] ex_machine = Some (p, es1, s1) \<and>
        (0 :: int) = (if p = nullptr then ENOMEM else 0) \<and>
        Some 0x200000 = (if p = nullptr then None else Some (ALIGN_ADDR p 4096)))"
proof -
  have "GetSizeClass ex_platform (max 4096 8192 * 2) = 0"
    by (simp add: ex_platform_def)
  from ex_large_memalign [OF this]
  obtain s' where run: "lr_posix_memalign ex_platform 4096 8192 [] ex_machine = Some ((0, Some 0x200000), [], s')"
    by (auto simp: ALIGN_ADDR_def)
  from posix_memalign_never_checks_alignment [OF run] run
  show ?thesis by blast
qed

section \<open>MallocFromActive: the last credit\<close>



section \<open>MallocFromNewSB: the descriptor is not installed\<close>





section \<open>MallocFromNewSB: the fresh superblock\<close>

lemma format_superblock_inv:
  fixes bsz :: u64
  assumes big: "8 \<le> unat bsz" and fit: "M * unat bsz \<le> 2 ^ 64" and n: "n \<le> M"
  shows "(\<forall>i. 1 \<le> i \<and> i < n \<longrightarrow>
            load64 (fold (\<lambda>idx m'. store64 m' (sb + of_nat idx * bsz) (of_nat idx + 1)) [1..<n] m)
                   (sb + of_nat i * bsz) = of_nat i + 1) \<and>
         (\<forall>j. j < M \<and> \<not> (1 \<le> j \<and> j < n) \<longrightarrow>
            load64 (fold (\<lambda>idx m'. store64 m' (sb + of_nat idx * bsz) (of_nat idx + 1)) [1..<n] m)
                   (sb + of_nat j * bsz) = load64 m (sb + of_nat j * bsz))"
  using n
proof (induction n)
  case 0
  then show ?case by simp
next
  case (Suc n)
  let ?f = "\<lambda>idx m'. store64 m' (sb + of_nat idx * bsz) (of_nat idx + 1)"
  show ?case
  proof (cases "n = 0")
    case True
    then show ?thesis by simp
  next
    case False
    then have step: "fold ?f [1..<Suc n] m = store64 (fold ?f [1..<n] m) (sb + of_nat n * bsz) (of_nat n + 1)"
      by simp
    from Suc have nM: "n < M" and IH1: "\<And>i. 1 \<le> i \<Longrightarrow> i < n \<Longrightarrow>
        load64 (fold ?f [1..<n] m) (sb + of_nat i * bsz) = of_nat i + 1"
      and IH2: "\<And>j. j < M \<Longrightarrow> \<not> (1 \<le> j \<and> j < n) \<Longrightarrow>
        load64 (fold ?f [1..<n] m) (sb + of_nat j * bsz) = load64 m (sb + of_nat j * bsz)"
      by simp_all
    have other: "load64 (fold ?f [1..<Suc n] m) (sb + of_nat k * bsz) =
                 load64 (fold ?f [1..<n] m) (sb + of_nat k * bsz)" if "k < M" "k \<noteq> n" for k
      unfolding step
    proof (rule load64_store64_other)
      show "8 \<le> unat (sb + of_nat k * bsz - (sb + of_nat n * bsz))"
        using that nM big fit by (intro block_apart [where M = M]) simp_all
      show "8 \<le> unat (sb + of_nat n * bsz - (sb + of_nat k * bsz))"
        using that nM big fit by (intro block_apart [where M = M]) simp_all
    qed
    show ?thesis
    proof (intro conjI allI impI)
      fix i assume i: "1 \<le> i \<and> i < Suc n"
      show "load64 (fold ?f [1..<Suc n] m) (sb + of_nat i * bsz) = of_nat i + 1"
      proof (cases "i = n")
        case True
        then show ?thesis unfolding step by (simp add: load64_store64)
      next
        case False
        with i nM have "i < M" "i < n" by simp_all
        with other [of i] False IH1 [of i] i show ?thesis by simp
      qed
    next
      fix j assume j: "j < M \<and> \<not> (1 \<le> j \<and> j < Suc n)"
      then have "j \<noteq> n" using False by auto
      with other [of j] IH2 [of j] j
      show "load64 (fold ?f [1..<Suc n] m) (sb + of_nat j * bsz) = load64 m (sb + of_nat j * bsz)"
        by auto
    qed
  qed
qed

lemma NewSB_quiet_formats:
  assumes pool: "desc (AvailDesc s) \<noteq> nullptr"
  shows "\<exists>r s'. MallocFromNewSB h [] s = Some (r, [], s') \<and>
           r = (if active (Heaps s h) = nullptr then fst (PageAlloc (sbSize (sizeclass (Heaps s h))) s) else nullptr) \<and>
           mem s' = format_superblock (fst (PageAlloc (sbSize (sizeclass (Heaps s h))) s))
                      (sc_blockSize (sizeclass (Heaps s h))) (blockNum (sizeclass (Heaps s h))) (mem s) \<and>
           anchor (descs s' (desc (AvailDesc s))) =
             \<lparr>state = SB_ACTIVE, avail = 1,
              count = ucast (blockNum (sizeclass (Heaps s h)) - 1 -
                             min (blockNum (sizeclass (Heaps s h)) - 1) CREDITS_MAX),
              tag = 0\<rparr> \<and>
           maxcount (descs s' (desc (AvailDesc s))) = blockNum (sizeclass (Heaps s h)) \<and>
           blockSize (descs s' (desc (AvailDesc s))) = sc_blockSize (sizeclass (Heaps s h)) \<and>
           superblock (descs s' (desc (AvailDesc s))) = fst (PageAlloc (sbSize (sizeclass (Heaps s h))) s) \<and>
           active (Heaps s' h) =
             (if active (Heaps s h) = nullptr
              then MakeActive (desc (AvailDesc s)) (min (blockNum (sizeclass (Heaps s h)) - 1) CREDITS_MAX - 1)
              else active (Heaps s h))"
  using pool
  by (cases "page_supply s"; cases "active (Heaps s h) = nullptr")
     (simp_all add: MallocFromNewSB_def DescAlloc_quiet Let_def PageAlloc_def upd_desc_def upd_heap_def
       MallocFromNewSB_fail_def DescRetire_quiet UnregisterDesc_def RegisterDesc_def UpdatePageMap_eq
       PageFree_def)

lemma anchor_count_fresh:
  fixes maxc :: u64
  assumes "1 \<le> unat maxc" "unat maxc \<le> 2 ^ 25"
  defines "credits \<equiv> min (maxc - 1) CREDITS_MAX"
  shows "unat credits = min (unat maxc - 1) 64"
    and "unat (ucast (maxc - 1 - credits) :: 25 word) = unat maxc - 1 - unat credits"
proof -
  have nz: "maxc \<noteq> 0" using assms(1) by auto
  have m1: "unat (maxc - 1) = unat maxc - 1"
    using nz by (rule unat_minus_one)
  show c: "unat credits = min (unat maxc - 1) 64"
    unfolding credits_def CREDITS_MAX_val
    by (simp add: min_def word_le_nat_alt m1)
  have "credits \<le> maxc - 1"
    unfolding credits_def by simp
  then have "unat (maxc - 1 - credits) = unat maxc - 1 - unat credits"
    by (simp add: unat_sub m1)
  moreover have "unat maxc - 1 - unat credits < 2 ^ 25"
    using assms(1,2) by simp
  ultimately show "unat (ucast (maxc - 1 - credits) :: 25 word) = unat maxc - 1 - unat credits"
    by (simp add: unsigned_ucast_eq take_bit_nat_eq_self)
qed

text \<open>
  Claim C6. \<open>MallocFromNewSB\<close> (running alone, with a descriptor \<open>d\<close> on the recycle
  list) formats the fresh superblock \<open>sb\<close> of \<open>maxcount\<close> blocks so that every block \<open>i\<close>
  with \<open>1 \<le> i \<le> maxcount - 2\<close> stores \<open>i + 1\<close> in its first eight bytes; block 0 (handed
  to the caller) and the last block keep the bytes they had: the last link is not written.
  The anchor is \<open>{avail = 1, count = maxcount - 1 - credits, state = ACTIVE, tag = 0}\<close> with
  \<open>credits = min(maxcount - 1, CREDITS_MAX)\<close>. The size class is a sound one: a block holds
  the eight bytes of a link, there is at least one block, the count fits the 25 bits of
  the anchor's field, and the blocks fit the address space.
\<close>

theorem MallocFromNewSB_formats_superblock:
  fixes s :: machine and h :: nat
  defines "sc \<equiv> sizeclass (Heaps s h)"
  defines "d \<equiv> desc (AvailDesc s)"
  defines "sb \<equiv> fst (PageAlloc (sbSize sc) s)"
  defines "maxc \<equiv> blockNum sc"
  defines "bsz \<equiv> sc_blockSize sc"
  defines "credits \<equiv> min (maxc - 1) CREDITS_MAX"
  assumes pool: "d \<noteq> nullptr"
    and big: "8 \<le> unat bsz"
    and some: "1 \<le> unat maxc"
    and field: "unat maxc \<le> 2 ^ 25"
    and fit: "unat maxc * unat bsz \<le> 2 ^ 64"
  shows "\<exists>r s'. MallocFromNewSB h [] s = Some (r, [], s') \<and>
           r = (if active (Heaps s h) = nullptr then sb else nullptr) \<and>
           maxcount (descs s' d) = maxc \<and> blockSize (descs s' d) = bsz \<and> superblock (descs s' d) = sb \<and>
           (\<forall>i. 1 \<le> i \<and> i + 2 \<le> unat maxc \<longrightarrow> load64 (mem s') (sb + of_nat i * bsz) = of_nat i + 1) \<and>
           load64 (mem s') sb = load64 (mem s) sb \<and>
           load64 (mem s') (sb + (maxc - 1) * bsz) = load64 (mem s) (sb + (maxc - 1) * bsz) \<and>
           anchor (descs s' d) =
             \<lparr>state = SB_ACTIVE, avail = 1, count = ucast (maxc - 1 - credits), tag = 0\<rparr> \<and>
           unat credits = min (unat maxc - 1) 64 \<and>
           unat (count (anchor (descs s' d))) = unat maxc - 1 - unat credits"
proof -
  have nz: "maxc \<noteq> 0" using some by auto
  have m1: "unat (maxc - 1) = unat maxc - 1"
    using nz by (rule unat_minus_one)
  have n: "unat (maxc - 1) \<le> unat maxc" using m1 by simp
  note inv = format_superblock_inv [OF big fit n, of sb "mem s", folded format_superblock_def]
  have "(of_nat (unat (maxc - 1)) :: u64) = maxc - 1" by simp
  then have last: "sb + (maxc - 1) * bsz = sb + of_nat (unat maxc - 1) * bsz"
    by (simp only: m1)
  have first: "sb = sb + of_nat 0 * bsz" by simp
  have blocks: "load64 (format_superblock sb bsz maxc (mem s)) (sb + of_nat i * bsz) = of_nat i + 1"
    if "1 \<le> i \<and> i + 2 \<le> unat maxc" for i
  proof -
    from that m1 have "1 \<le> i \<and> i < unat (maxc - 1)" by arith
    with inv show ?thesis by blast
  qed
  from inv have keep0: "load64 (format_superblock sb bsz maxc (mem s)) sb = load64 (mem s) sb"
    using some by (subst (1 2) first, intro inv [THEN conjunct2, rule_format]) simp
  from inv have keepl: "load64 (format_superblock sb bsz maxc (mem s)) (sb + (maxc - 1) * bsz) =
        load64 (mem s) (sb + (maxc - 1) * bsz)"
    unfolding last using some m1 by (intro inv [THEN conjunct2, rule_format]) simp
  from NewSB_quiet_formats [OF pool [unfolded d_def], of h]
  obtain r s' where run: "MallocFromNewSB h [] s = Some (r, [], s')"
      "r = (if active (Heaps s h) = nullptr then sb else nullptr)"
      "mem s' = format_superblock sb bsz maxc (mem s)"
      "anchor (descs s' d) = \<lparr>state = SB_ACTIVE, avail = 1, count = ucast (maxc - 1 - credits), tag = 0\<rparr>"
      "maxcount (descs s' d) = maxc" "blockSize (descs s' d) = bsz" "superblock (descs s' d) = sb"
    unfolding sc_def d_def sb_def maxc_def bsz_def credits_def by blast
  note cnt = anchor_count_fresh [OF some field, folded credits_def]
  show ?thesis
    using run blocks keep0 keepl cnt
    by (intro exI [of _ r] exI [of _ s']) simp
qed

text \<open>
  On the example machine (eight blocks of 1024 bytes): blocks 1 to 6 link to 2 to 7, all
  seven remaining blocks are credits, so the count is 0.
\<close>

theorem MallocFromNewSB_formats_superblock_witness:
  "desc (AvailDesc ex_machine) \<noteq> nullptr \<and> 8 \<le> unat (1024 :: u64) \<and> 1 \<le> unat (8 :: u64) \<and>
   unat (8 :: u64) \<le> 2 ^ 25 \<and> unat (8 :: u64) * unat (1024 :: u64) \<le> 2 ^ 64 \<and>
   (\<exists>s'. MallocFromNewSB 1 [] ex_machine = Some (0x200000, [], s') \<and>
      load64 (mem s') 0x200400 = 2 \<and> load64 (mem s') 0x201800 = 7 \<and>
      load64 (mem s') 0x200000 = load64 (mem ex_machine) 0x200000 \<and>
      load64 (mem s') 0x201C00 = load64 (mem ex_machine) 0x201C00 \<and>
      anchor (descs s' 0x10000) = \<lparr>state = SB_ACTIVE, avail = 1, count = 0, tag = 0\<rparr> \<and>
      maxcount (descs s' 0x10000) = 8)"
proof -
  have ex: "sizeclass (Heaps ex_machine 1) = \<lparr>sc_blockSize = 1024, sbSize = 8192, blockNum = 8\<rparr>"
       "desc (AvailDesc ex_machine) = 0x10000" "fst (PageAlloc 8192 ex_machine) = 0x200000"
       "active (Heaps ex_machine 1) = nullptr"
    by (simp_all add: ex_machine_def ex_sizeclass_def PageAlloc_def)
  from MallocFromNewSB_formats_superblock [of ex_machine 1, unfolded ex, simplified]
  obtain s' where run: "MallocFromNewSB 1 [] ex_machine = Some (0x200000, [], s')"
     "\<forall>i. Suc 0 \<le> i \<and> i \<le> 6 \<longrightarrow> load64 (mem s') (0x200000 + of_nat i * 1024) = of_nat i + 1"
     "load64 (mem s') 0x200000 = load64 (mem ex_machine) 0x200000"
     "load64 (mem s') 0x201C00 = load64 (mem ex_machine) 0x201C00"
     "anchor (descs s' 0x10000) = \<lparr>state = SB_ACTIVE, avail = 1, count = 0, tag = 0\<rparr>"
     "maxcount (descs s' 0x10000) = 8"
    by (auto simp: CREDITS_MAX_val ex(3))
  from run(2) [rule_format, of 1] run(2) [rule_format, of 6]
  have "load64 (mem s') 0x200400 = 2" "load64 (mem s') 0x201800 = 7" by simp_all
  with run ex show ?thesis by simp
qed

section \<open>realloc\<close>



section \<open>The bound on the count of an anchor\<close>

text \<open>Runs of the loops and of the public functions used below.\<close>

lemma MallocFromPartial_reserve_quiet:
  "anchor (descs s d) = oldAnchor \<Longrightarrow> state oldAnchor \<noteq> SB_EMPTY \<Longrightarrow>
   MallocFromPartial_reserve d oldAnchor [] s =
     (let credits = min (ucast (count oldAnchor) - 1) CREDITS_MAX
      in Some (Some credits, [],
               upd_desc d (\<lambda>x. x\<lparr>anchor := oldAnchor\<lparr>count := count oldAnchor - 1 - ucast credits,
                                                         state := (if credits > 0 then SB_ACTIVE else SB_FULL)\<rparr>\<rparr>) s))"
  by (subst MallocFromPartial_reserve.simps) (simp add: Let_def)

lemma MallocFromPartial_pop_quiet:
  "anchor (descs s d) = oldAnchor \<Longrightarrow> heap (descs s d) = Some h' \<Longrightarrow>
   MallocFromPartial_pop d oldAnchor [] s =
     (let p = superblock (descs s d) + ucast (avail oldAnchor) * sc_blockSize (sizeclass (Heaps s h'))
      in Some (p, [],
               upd_desc d (\<lambda>x. x\<lparr>anchor := oldAnchor\<lparr>avail := ucast (load64 (mem s) p),
                                                         tag := tag oldAnchor + 1\<rparr>\<rparr>) s))"
  by (subst MallocFromPartial_pop.simps) (simp add: Let_def)

lemma MallocFromPartial_run:
  assumes y1: "yield es s = (es1, s1)"
    and oh: "partialList (Heaps s1 h) = oh" and nz: "desc oh \<noteq> nullptr"
    and y2: "yield es1 s1 = (es2, s2)"
    and y3: "yield es2 s2 = ([], s3)" and ns: "\<not> spurious es2"
    and same: "partialList (Heaps s3 h) = oh"
    and st: "state (anchor (descs s3 (desc oh))) \<noteq> SB_EMPTY"
    and hp: "heap (descs s3 (desc oh)) = Some h'"
  shows "MallocFromPartial h es s =
     (let s4 = upd_heap h (\<lambda>x. x\<lparr>partialList := (nextPartial (descs s2 (desc oh)))\<lparr>counter := counter oh\<rparr>\<rparr>) s3;
          (p, s') = after_pop h (desc oh) s4
      in Some (p, [], s'))"
proof -
  have pop: "HeapPopPartial h es s =
      Some (desc oh, [], upd_heap h (\<lambda>x. x\<lparr>partialList := (nextPartial (descs s2 (desc oh)))\<lparr>counter := counter oh\<rparr>\<rparr>) s3)"
    unfolding HeapPopPartial_def ListPopPartial_def
    using y1 oh nz y2 y3 ns same
    by (simp, subst ListPopPartial_loop.simps) simp
  let ?s4 = "upd_heap h (\<lambda>x. x\<lparr>partialList := (nextPartial (descs s2 (desc oh)))\<lparr>counter := counter oh\<rparr>\<rparr>) s3"
  have f4: "descs ?s4 = descs s3" "mem ?s4 = mem s3"
    by (simp_all add: upd_heap_def)
  show ?thesis
    apply (subst MallocFromPartial.simps)
    using nz st hp
    apply (simp add: pop f4 MallocFromPartial_reserve_quiet Let_def)
    apply (simp add: MallocFromPartial_pop_quiet upd_desc_def after_pop_def Let_def
                     UpdateActive_quiet upd_heap_def)
    done
qed



lemma block_not_null:
  assumes "unat (sb :: u64) < 2 ^ 32" "sb \<noteq> 0"
  shows "sb + ucast (av :: 25 word) * (4096 :: u64) \<noteq> 0"
proof -
  have a: "unat (ucast av :: u64) < 2 ^ 25"
    using unsigned_less [of av, where 'a = nat] by (simp add: unat_ucast_25_64)
  have m: "unat (ucast av * (4096 :: u64)) = unat (ucast av :: u64) * 4096"
    using a by (simp add: unat_word_ariths)
  have "unat (sb + ucast av * (4096 :: u64)) = unat sb + unat (ucast av :: u64) * 4096"
    using a assms(1) by (simp add: unat_word_ariths m)
  moreover have "0 < unat sb" using assms(2) by (simp add: unat_gt_0)
  ultimately have "unat (sb + ucast av * (4096 :: u64)) \<noteq> 0" by simp
  thus ?thesis by (metis unat_0)
qed

lemma MallocFromActive_null_run:
  "yield es s = (es1, s1) \<Longrightarrow> active (Heaps s1 h) = nullptr \<Longrightarrow>
   MallocFromActive h es s = Some (nullptr, es1, s1)"
  unfolding MallocFromActive_def
  by (simp, subst MallocFromActive_reserve.simps) simp



lemma lr_free_loop_idle:
  "anchor (descs s d) = oldAnchor \<Longrightarrow> blockSize (descs s d) \<noteq> 0 \<Longrightarrow>
   lr_free_loop d sb p oldAnchor (Env id # es) s =
     (let bsz = blockSize (descs s d);
          idx = (p - sb) div bsz;
          p' = superblock (descs s d) + idx * bsz;
          newAnchor = lr_free_step (maxcount (descs s d)) idx oldAnchor
      in Some ((oldAnchor, newAnchor), es,
               upd_desc d (\<lambda>x. x\<lparr>anchor := newAnchor\<rparr>)
                 (s\<lparr>mem := store64 (mem s) p' (ucast (avail oldAnchor))\<rparr>)))"
  by (subst lr_free_loop.simps) (simp add: Let_def)

lemma ListPushPartial_loop_quiet:
  "partialList (Heaps s h) = oldHead \<Longrightarrow>
   ListPushPartial_loop h newHead oldHead [] s =
     Some ([], upd_heap h (\<lambda>x. x\<lparr>partialList := newHead\<rparr>)
                 (upd_desc (desc newHead) (\<lambda>x. x\<lparr>nextPartial := oldHead\<rparr>) s))"
  by (subst ListPushPartial_loop.simps) (simp add: upd_desc_def Let_def)

lemma ListPushPartial_interfered:
  assumes "heap (descs s d) = Some h"
    and "partialList (Heaps (G (upd_desc d (\<lambda>x. x\<lparr>nextPartial := partialList (Heaps s h)\<rparr>) s)) h)
           \<noteq> partialList (Heaps s h)"
  shows "ListPushPartial d [Env id, Env id, Env G] s =
     (let s2 = G (upd_desc d (\<lambda>x. x\<lparr>nextPartial := partialList (Heaps s h)\<rparr>) s)
      in ListPushPartial_loop h \<lparr>desc = d, counter = counter (partialList (Heaps s h)) + 1\<rparr>
           (partialList (Heaps s2 h)) [] s2)"
  using assms unfolding ListPushPartial_def
  by (simp, subst ListPushPartial_loop.simps) (simp add: Let_def)

lemma aba_free_paused_eq:
  assumes "blockSize (descs s 0x10000) \<noteq> 0"
  shows "aba_free_paused s =
     (let oldAnchor = anchor (descs s 0x10000);
          bsz = blockSize (descs s 0x10000);
          s1 = upd_desc 0x10000 (\<lambda>x. x\<lparr>anchor := lr_free_step (maxcount (descs s 0x10000)) 0 oldAnchor\<rparr>)
                 (s\<lparr>mem := store64 (mem s) (superblock (descs s 0x10000)) (ucast (avail oldAnchor))\<rparr>)
      in upd_desc 0x10000 (\<lambda>v. v\<lparr>nextPartial := partialList (Heaps s1 1)\<rparr>) s1)"
  using assms by (simp add: aba_free_paused_def lr_free_loop_quiet Let_def)

lemma aba_free_paused_ok:
  assumes "aba_ok s an nx oh act" "an 0x10000 = (SB_FULL, 0)"
  shows "aba_ok (aba_free_paused s) (an(0x10000 := (SB_PARTIAL, 1))) (nx(0x10000 := oh)) oh act"
proof -
  have "blockSize (descs s 0x10000) \<noteq> 0"
    using assms by (simp add: aba_ok_def aba_desc_ok_def)
  from aba_free_paused_eq [OF this] show ?thesis
    using assms
    by (auto simp: aba_ok_def aba_desc_ok_def Let_def upd_desc_def lr_free_step_def)
qed

lemma aba_free_resumed_ok:
  assumes "aba_ok s an nx oh act"
  shows "aba_ok (aba_free_resumed s) an (nx(0x10000 := oh)) \<lparr>desc = 0x10000, counter = 1\<rparr> act"
  using assms
  by (auto simp: aba_free_resumed_def ListPushPartial_loop_quiet aba_ok_def aba_desc_ok_def
        upd_desc_def upd_heap_def)

text \<open>The free of block 0 of the first superblock, interfered with before its compare-exchange.\<close>

lemma aba_free_run:
  assumes ok: "aba_ok s an nx oh act" and full: "an 0x10000 = (SB_FULL, 0)" and c: "counter oh = 0"
    and ch: "partialList (Heaps (G (aba_free_paused s)) 1) \<noteq> oh"
  shows "lr_free 0x200000 [Env id, Env id, Env id, Env id, Env G] s =
           Some ([], aba_free_resumed (G (aba_free_paused s)))"
proof -
  have f: "GetDescriptorForPtr 0x200000 s = 0x10000" "heap (descs s 0x10000) = Some 1"
    "blockSize (descs s 0x10000) = 4096" "maxcount (descs s 0x10000) = 2"
    "superblock (descs s 0x10000) = 0x200000" "state (anchor (descs s 0x10000)) = SB_FULL"
    "count (anchor (descs s 0x10000)) = 0" "partialList (Heaps s 1) = oh"
    using ok full by (auto simp: aba_ok_def aba_desc_ok_def GetDescriptorForPtr_def GetPageInfo_def LG_PAGE_def)
  have bz: "blockSize (descs s 0x10000) \<noteq> 0" using f by simp
  let ?s1 = "upd_desc 0x10000 (\<lambda>x. x\<lparr>anchor := lr_free_step 2 0 (anchor (descs s 0x10000))\<rparr>)
                 (s\<lparr>mem := store64 (mem s) 0x200000 (ucast (avail (anchor (descs s 0x10000))))\<rparr>)"
  have p: "aba_free_paused s = upd_desc 0x10000 (\<lambda>v. v\<lparr>nextPartial := oh\<rparr>) ?s1"
    using f by (simp add: aba_free_paused_eq [OF bz] Let_def upd_desc_def)
  have h1: "heap (descs ?s1 0x10000) = Some 1" "partialList (Heaps ?s1 1) = oh"
    using f by (simp_all add: upd_desc_def)
  have push: "ListPushPartial 0x10000 [Env id, Env id, Env G] ?s1 =
      ListPushPartial_loop 1 \<lparr>desc = 0x10000, counter = 1\<rparr>
        (partialList (Heaps (G (aba_free_paused s)) 1)) [] (G (aba_free_paused s))"
    using ListPushPartial_interfered [of ?s1 "0x10000" 1 G] h1 ch c
    by (simp add: p Let_def)
  have "lr_free 0x200000 [Env id, Env id, Env id, Env id, Env G] s =
      ListPushPartial 0x10000 [Env id, Env id, Env G] ?s1"
    using f
    by (simp add: lr_free_def Let_def lr_free_loop_idle lr_free_step_def HeapPushPartial_def)
  also have "\<dots> = Some ([], aba_free_resumed (G (aba_free_paused s)))"
    unfolding push
    by (simp add: aba_free_resumed_def ListPushPartial_loop_quiet)
  finally show ?thesis .
qed



lemma lr_malloc_active_quiet:
  assumes "MallocInit s" "GetSizeClass P sz = h" "h \<noteq> 0"
    "MallocFromActive h [] s = Some (p, [], s')" "p \<noteq> nullptr"
  shows "lr_malloc P sz [] s = Some (p, [], s')"
  using assms
  by (simp add: lr_malloc_def GetProcHeap_def Let_def) (subst lr_malloc_loop.simps, simp)

lemma aba_two_mallocs:
  assumes i: "MallocInit s" "active (Heaps s 1) = nullptr"
      "partialList (Heaps s 1) = \<lparr>desc = nullptr, counter = 0\<rparr>" "sizeclass (Heaps s 1) = aba_sizeclass"
    and d: "desc (AvailDesc s) = d" "d = 0x10000 \<or> d = 0x10080 \<or> d = 0x10100"
      "nextPartial (descs s d) = \<lparr>desc = nullptr, counter = 0\<rparr>"
    and sb: "page_supply s = sb # rest" "sb = 0x200000 \<or> sb = 0x300000 \<or> sb = 0x400000"
  shows "\<exists>s'. other_malloc aba_platform 4096 (other_malloc aba_platform 4096 s) = s' \<and>
           MallocInit s' \<and> active (Heaps s' 1) = nullptr \<and>
           partialList (Heaps s' 1) = \<lparr>desc = nullptr, counter = 0\<rparr> \<and> sizeclass (Heaps s' 1) = aba_sizeclass \<and>
           AvailDesc s' = (nextFree (descs s d))\<lparr>counter := counter (AvailDesc s)\<rparr> \<and>
           page_supply s' = rest \<and>
           aba_desc_ok s' d sb (SB_FULL, 0) \<lparr>desc = nullptr, counter = 0\<rparr> \<and>
           (\<forall>d'. d' \<noteq> d \<longrightarrow> descs s' d' = descs s d') \<and>
           (\<forall>k. k \<noteq> drop_bit 12 sb \<and> k \<noteq> drop_bit 12 sb + 1 \<longrightarrow> sPageMap s' k = sPageMap s k)"
proof -
  have dz: "desc (AvailDesc s) \<noteq> nullptr" using d by auto
  have pa: "fst (PageAlloc 8192 s) = sb" using sb by (simp add: PageAlloc_def)
  have sbz: "unat sb < 2 ^ 32" "sb \<noteq> 0" using sb by auto
  from MallocFromNewSB_quiet_ok [OF dz i(2)]
  obtain s1 where n: "MallocFromNewSB 1 [] s = Some (sb, [], s1)"
    and f1: "AvailDesc s1 = (nextFree (descs s d))\<lparr>counter := counter (AvailDesc s)\<rparr>"
      "descs s1 = (descs s)(d := (descs s d)
        \<lparr>heap := Some 1, blockSize := 4096, maxcount := 2, superblock := sb,
         anchor := \<lparr>state = SB_ACTIVE, avail = 1, count = 0, tag = 0\<rparr>\<rparr>)"
      "MallocInit s1" "Heaps s1 = (Heaps s)(1 := (Heaps s 1)\<lparr>active := d\<rparr>)"
      "sPageMap s1 = (\<lambda>k. if k \<in> (\<lambda>idx. drop_bit LG_PAGE (sb + idx)) ` set (page_offsets 8192)
                        then d else sPageMap s k)"
      "page_supply s1 = rest"
    using i d sb pa
    by (auto simp: aba_sizeclass_def CREDITS_MAX_val MakeActive_def)
  have m1: "other_malloc aba_platform 4096 s = s1"
    using lr_malloc_fresh_quiet [where P = aba_platform and sz = 4096 and h = 1 and s = s, OF i(1) _ _ i(2) _ dz sb(1)]
      i sbz n
    by (simp add: other_malloc_def aba_platform_def)
  have a1: "active (Heaps s1 (Suc 0)) \<noteq> nullptr" "active (Heaps s1 (Suc 0)) = d" using f1 d by auto
  have dm: "d AND CREDITS_MASK = 0" "d AND NOT CREDITS_MASK = d"
    using d by (auto simp: CREDITS_MASK_val)
  let ?p = "sb + 4096"
  let ?s2 = "upd_desc d (\<lambda>x. x\<lparr>anchor := \<lparr>state = SB_FULL, avail = ucast (load64 (mem s1) ?p), count = 0, tag = 1\<rparr>\<rparr>)
               (upd_heap 1 (\<lambda>x. x\<lparr>active := nullptr\<rparr>) s1)"
  have act: "MallocFromActive 1 [] s1 = Some (?p, [], ?s2)"
    using f1 a1(2) dm
    by (simp add: MallocFromActive_quiet [OF a1(1)] Let_def MallocFromActive_step_def)
  have pz: "?p \<noteq> nullptr" using block_not_null [OF sbz, of 1] by simp
  have m2: "other_malloc aba_platform 4096 s1 = ?s2"
    using lr_malloc_active_quiet [where P = aba_platform and sz = 4096 and h = 1, OF f1(3) _ _ act pz]
    by (simp add: other_malloc_def aba_platform_def)
  have "MallocInit ?s2 \<and> active (Heaps ?s2 1) = nullptr \<and>
           partialList (Heaps ?s2 1) = \<lparr>desc = nullptr, counter = 0\<rparr> \<and> sizeclass (Heaps ?s2 1) = aba_sizeclass \<and>
           AvailDesc ?s2 = (nextFree (descs s d))\<lparr>counter := counter (AvailDesc s)\<rparr> \<and>
           page_supply ?s2 = rest \<and>
           aba_desc_ok ?s2 d sb (SB_FULL, 0) \<lparr>desc = nullptr, counter = 0\<rparr> \<and>
           (\<forall>d'. d' \<noteq> d \<longrightarrow> descs ?s2 d' = descs s d') \<and>
           (\<forall>k. k \<noteq> drop_bit 12 sb \<and> k \<noteq> drop_bit 12 sb + 1 \<longrightarrow> sPageMap ?s2 k = sPageMap s k)"
    using f1 i d(3) sb(2)
    by (auto simp: upd_desc_def upd_heap_def aba_desc_ok_def page_offsets_8192 LG_PAGE_def)
  thus ?thesis by (simp add: m1 m2)
qed



lemma aba_free_step:
  assumes ok: "aba_ok s an nx oh act"
    and x: "(x :: ptr, sb :: ptr) = (0x10000, 0x200000) \<or> (x, sb) = (0x10080, 0x300000) \<or> (x, sb) = (0x10100, 0x400000)"
    and p: "p = sb \<or> p = sb + 4096"
    and full: "an x = (SB_FULL, 0)"
  shows "\<exists>s'. lr_free p [] s = Some ([], s') \<and>
              aba_ok s' (an(x := (SB_PARTIAL, 1))) (nx(x := oh)) \<lparr>desc = x, counter = counter oh + 1\<rparr> act"
proof -
  have d: "GetDescriptorForPtr p s = x" "x \<noteq> nullptr" "p \<noteq> nullptr"
    using ok x p by (auto simp: aba_ok_def aba_desc_ok_def GetDescriptorForPtr_def GetPageInfo_def LG_PAGE_def)
  have f: "heap (descs s x) = Some 1" "blockSize (descs s x) = 4096" "maxcount (descs s x) = 2"
    "superblock (descs s x) = sb" "state (anchor (descs s x)) = SB_FULL" "count (anchor (descs s x)) = 0"
    using ok x full by (auto simp: aba_ok_def aba_desc_ok_def)
  have idx: "(p - sb) div 4096 = 0 \<or> (p - sb) div 4096 = 1"
    using p by auto
  let ?a = "(anchor (descs s x))\<lparr>avail := ucast ((p - sb) div 4096), state := SB_PARTIAL, count := 1\<rparr>"
  let ?s2 = "upd_desc x (\<lambda>v. v\<lparr>anchor := ?a\<rparr>)
               (s\<lparr>mem := store64 (mem s) (sb + (p - sb) div 4096 * 4096) (ucast (avail (anchor (descs s x))))\<rparr>)"
  let ?s3 = "upd_heap 1 (\<lambda>v. v\<lparr>partialList := \<lparr>desc = x, counter = counter (partialList (Heaps ?s2 1)) + 1\<rparr>\<rparr>)
               (upd_desc x (\<lambda>v. v\<lparr>nextPartial := partialList (Heaps ?s2 1)\<rparr>) ?s2)"
  have h2: "heap (descs ?s2 x) = Some 1"
    using f by (simp add: upd_desc_def)
  have eq: "lr_free p [] s = Some ([], ?s3)"
    using f
    by (simp add: lr_free_small_quiet [OF d(3) d(1) d(2) f(1)] Let_def lr_free_step_def
          HeapPushPartial_def ListPushPartial_quiet [OF h2])
  have "aba_ok ?s3 (an(x := (SB_PARTIAL, 1))) (nx(x := oh)) \<lparr>desc = x, counter = counter oh + 1\<rparr> act"
    using ok x by (auto simp: aba_ok_def aba_desc_ok_def upd_heap_def upd_desc_def)
  with eq show ?thesis by blast
qed



lemma aba_malloc_step:
  assumes es: "es = [] \<and> F = id \<or> es = [Env id, Env id, Env id, Env F]"
    and ok: "aba_ok s an nx oh nullptr"
    and x: "(x :: ptr, sb :: ptr) = (0x10000, 0x200000) \<or> (x, sb) = (0x10080, 0x300000) \<or> (x, sb) = (0x10100, 0x400000)"
    and oh: "desc oh = x"
    and ok': "aba_ok (F s) an' nx' oh nullptr"
    and st: "an' x = (st, c)" "st \<noteq> SB_EMPTY"
    and cr: "credits = min (ucast c - 1) (64 :: u64)"
  shows "\<exists>p s'. lr_malloc aba_platform 4096 es s = Some (p, [], s') \<and>
                aba_ok s' (an'(x := (if 0 < credits then SB_ACTIVE else SB_FULL, c - 1 - ucast credits))) nx'
                  ((nx x)\<lparr>counter := counter oh\<rparr>)
                  (if 0 < credits then MakeActive x (credits - 1) else nullptr)"
proof -
  have xz: "x \<noteq> nullptr" using x by auto
  have sbz: "unat sb < 2 ^ 32" "sb \<noteq> 0" using x by auto
  have f: "MallocInit s" "active (Heaps s 1) = nullptr" "partialList (Heaps s 1) = oh"
    "nextPartial (descs s x) = nx x"
    using ok x by (auto simp: aba_ok_def aba_desc_ok_def)
  have f': "partialList (Heaps (F s) 1) = oh" "state (anchor (descs (F s) x)) = st"
    "count (anchor (descs (F s) x)) = c" "heap (descs (F s) x) = Some 1"
    "superblock (descs (F s) x) = sb" "sizeclass (Heaps (F s) 1) = aba_sizeclass"
    using ok' x st by (auto simp: aba_ok_def aba_desc_ok_def)
  obtain es1 where y0: "yield es s = (es1, s)" "yield es1 s = (tl es1, s)" "yield (tl es1) s = (tl (tl es1), s)"
      "yield (tl (tl es1)) s = ([], F s)" "\<not> spurious (tl (tl es1))"
    using es by auto
  have act: "MallocFromActive 1 es s = Some (nullptr, es1, s)"
    using y0(1) f(2) by (rule MallocFromActive_null_run)
  note run = MallocFromPartial_run [where h = 1 and h' = 1 and oh = oh and es = es1 and s = s
      and ?s1.0 = s and ?s2.0 = s and ?s3.0 = "F s", OF y0(2) f(3) _ y0(3) y0(4) y0(5) f'(1)]
  have part: "MallocFromPartial 1 es1 s =
     (let s4 = upd_heap 1 (\<lambda>v. v\<lparr>partialList := (nx x)\<lparr>counter := counter oh\<rparr>\<rparr>) (F s);
          (p, s') = after_pop 1 x s4
      in Some (p, [], s'))"
    using run oh xz f f' st by simp
  let ?s4 = "upd_heap 1 (\<lambda>v. v\<lparr>partialList := (nx x)\<lparr>counter := counter oh\<rparr>\<rparr>) (F s)"
  have pz: "fst (after_pop 1 x ?s4) \<noteq> nullptr"
    using f' block_not_null [OF sbz]
    by (simp add: after_pop_def Let_def upd_heap_def upd_desc_def aba_sizeclass_def split: prod.splits)
  have eq: "lr_malloc aba_platform 4096 es s = Some (fst (after_pop 1 x ?s4), [], snd (after_pop 1 x ?s4))"
    using f(1) pz
    apply (simp add: lr_malloc_def GetProcHeap_def aba_platform_def)
    apply (subst lr_malloc_loop.simps)
    apply (auto simp: act [simplified] part [simplified] Let_def split: prod.splits)
    done
  have "aba_ok (snd (after_pop 1 x ?s4))
          (an'(x := (if 0 < credits then SB_ACTIVE else SB_FULL, c - 1 - ucast credits))) nx'
          ((nx x)\<lparr>counter := counter oh\<rparr>)
          (if 0 < credits then MakeActive x (credits - 1) else nullptr)"
    using ok' x st cr
    by (auto simp: aba_ok_def aba_desc_ok_def after_pop_def Let_def upd_heap_def upd_desc_def CREDITS_MAX_val)
  with eq show ?thesis by blast
qed



lemma aba_machine_ok:
  "aba_ok aba_machine (\<lambda>_. (SB_FULL, 0)) (\<lambda>_. \<lparr>desc = nullptr, counter = 0\<rparr>) \<lparr>desc = nullptr, counter = 0\<rparr> nullptr"
proof -
  let ?m = "other_malloc aba_platform 4096"
  have e: "aba_machine = ?m (?m (?m (?m (?m (?m aba_fresh)))))"
    by (simp add: aba_machine_def eval_nat_numeral)
  from aba_two_mallocs [where s = aba_fresh and d = "0x10000" and sb = "0x200000"]
  obtain s1 where s1: "?m (?m aba_fresh) = s1" "MallocInit s1" "active (Heaps s1 1) = nullptr"
      "partialList (Heaps s1 1) = \<lparr>desc = nullptr, counter = 0\<rparr>" "sizeclass (Heaps s1 1) = aba_sizeclass"
      "AvailDesc s1 = \<lparr>desc = 0x10080, counter = 0\<rparr>" "page_supply s1 = [0x300000, 0x400000]"
      "aba_desc_ok s1 0x10000 0x200000 (SB_FULL, 0) \<lparr>desc = nullptr, counter = 0\<rparr>"
      "\<forall>d'. d' \<noteq> 0x10000 \<longrightarrow> descs s1 d' = descs aba_fresh d'"
      "\<forall>k. k \<noteq> 0x200 \<and> k \<noteq> 0x201 \<longrightarrow> sPageMap s1 k = sPageMap aba_fresh k"
    by (auto simp: aba_fresh_def ex_machine_def ex_descriptor_def)
  from aba_two_mallocs [where s = s1 and d = "0x10080" and sb = "0x300000"] s1
  obtain s2 where s2: "?m (?m s1) = s2" "MallocInit s2" "active (Heaps s2 1) = nullptr"
      "partialList (Heaps s2 1) = \<lparr>desc = nullptr, counter = 0\<rparr>" "sizeclass (Heaps s2 1) = aba_sizeclass"
      "AvailDesc s2 = \<lparr>desc = 0x10100, counter = 0\<rparr>" "page_supply s2 = [0x400000]"
      "aba_desc_ok s2 0x10080 0x300000 (SB_FULL, 0) \<lparr>desc = nullptr, counter = 0\<rparr>"
      "\<forall>d'. d' \<noteq> 0x10080 \<longrightarrow> descs s2 d' = descs s1 d'"
      "\<forall>k. k \<noteq> 0x300 \<and> k \<noteq> 0x301 \<longrightarrow> sPageMap s2 k = sPageMap s1 k"
    by (auto simp: aba_fresh_def ex_machine_def ex_descriptor_def)
  from aba_two_mallocs [where s = s2 and d = "0x10100" and sb = "0x400000"] s1(9) s2
  obtain s3 where s3: "?m (?m s2) = s3" "MallocInit s3" "active (Heaps s3 1) = nullptr"
      "partialList (Heaps s3 1) = \<lparr>desc = nullptr, counter = 0\<rparr>" "sizeclass (Heaps s3 1) = aba_sizeclass"
      "aba_desc_ok s3 0x10100 0x400000 (SB_FULL, 0) \<lparr>desc = nullptr, counter = 0\<rparr>"
      "\<forall>d'. d' \<noteq> 0x10100 \<longrightarrow> descs s3 d' = descs s2 d'"
      "\<forall>k. k \<noteq> 0x400 \<and> k \<noteq> 0x401 \<longrightarrow> sPageMap s3 k = sPageMap s2 k"
    by (auto simp: aba_fresh_def ex_machine_def ex_descriptor_def)
  have "aba_machine = s3" using e s1(1) s2(1) s3(1) by simp
  moreover have "aba_desc_ok s3 0x10000 0x200000 (SB_FULL, 0) \<lparr>desc = nullptr, counter = 0\<rparr>"
    using s1(8) s2(9,10) s3(7,8) by (simp add: aba_desc_ok_def)
  moreover have "aba_desc_ok s3 0x10080 0x300000 (SB_FULL, 0) \<lparr>desc = nullptr, counter = 0\<rparr>"
    using s2(8) s3(7,8) by (simp add: aba_desc_ok_def)
  ultimately show ?thesis
    using s3 by (simp add: aba_ok_def)
qed



lemma other_free_ok:
  assumes "aba_ok s an nx oh act"
    and "(x :: ptr, sb :: ptr) = (0x10000, 0x200000) \<or> (x, sb) = (0x10080, 0x300000) \<or> (x, sb) = (0x10100, 0x400000)"
    and "p = sb \<or> p = sb + 4096" and "an x = (SB_FULL, 0)"
  shows "aba_ok (other_free p s) (an(x := (SB_PARTIAL, 1))) (nx(x := oh)) \<lparr>desc = x, counter = counter oh + 1\<rparr> act"
  using aba_free_step [OF assms] by (auto simp: other_free_def)

lemma other_malloc_ok:
  assumes "aba_ok s an nx oh nullptr"
    and "(x :: ptr, sb :: ptr) = (0x10000, 0x200000) \<or> (x, sb) = (0x10080, 0x300000) \<or> (x, sb) = (0x10100, 0x400000)"
    and "desc oh = x" and "an x = (SB_PARTIAL, 1)"
  shows "aba_ok (other_malloc aba_platform 4096 s) (an(x := (SB_FULL, 0))) nx ((nx x)\<lparr>counter := counter oh\<rparr>) nullptr"
proof -
  have "aba_ok (id s) an nx oh nullptr" using assms(1) by simp
  from aba_malloc_step [where es = "[]" and F = id and credits = 0, OF _ assms(1) assms(2) assms(3) this assms(4)]
  show ?thesis by (auto simp: other_malloc_def)
qed

lemma aba_before_ok:
  "aba_ok aba_before
     (\<lambda>d. if d = 0x10000 \<or> d = 0x10080 \<or> d = 0x10100 then (SB_PARTIAL, 1) else (SB_FULL, 0))
     (\<lambda>d. if d = 0x10100 then \<lparr>desc = 0x10080, counter = 1\<rparr> else \<lparr>desc = nullptr, counter = 0\<rparr>)
     \<lparr>desc = 0x10100, counter = 2\<rparr> nullptr"
proof -
  note a = aba_free_paused_ok [OF aba_machine_ok]
  note b = other_free_ok [where x = "0x10080" and sb = "0x300000" and p = "0x300000", OF a]
  note c = other_free_ok [where x = "0x10100" and sb = "0x400000" and p = "0x400000", OF b]
  have "aba_ok aba_before
     (((\<lambda>_. (SB_FULL, 0))(0x10000 := (SB_PARTIAL, 1), 0x10080 := (SB_PARTIAL, 1), 0x10100 := (SB_PARTIAL, 1))))
     (((\<lambda>_. \<lparr>desc = nullptr, counter = 0\<rparr>)(0x10000 := \<lparr>desc = nullptr, counter = 0\<rparr>,
         0x10080 := \<lparr>desc = nullptr, counter = 0\<rparr>, 0x10100 := \<lparr>desc = 0x10080, counter = 0 + 1\<rparr>)))
     \<lparr>desc = 0x10100, counter = 0 + 1 + 1\<rparr> nullptr"
    unfolding aba_before_def using c by simp
  thus ?thesis
    by (simp add: aba_ok_def)
qed



lemma aba_others_ok:
  "aba_ok (aba_others aba_before)
     (\<lambda>d. if d = 0x10100 then (SB_PARTIAL, 1) else (SB_FULL, 0))
     (\<lambda>d. if d = 0x10000 then \<lparr>desc = 0x10100, counter = 2\<rparr>
           else if d = 0x10100 then \<lparr>desc = nullptr, counter = 1\<rparr>
           else \<lparr>desc = nullptr, counter = 0\<rparr>)
     \<lparr>desc = 0x10100, counter = 2\<rparr> nullptr"
proof -
  note a = aba_free_resumed_ok [OF aba_before_ok]
  note b = other_malloc_ok [where x = "0x10000" and sb = "0x200000", OF a]
  have b': "aba_ok (other_malloc aba_platform 4096 (aba_free_resumed aba_before))
     (\<lambda>d. if d = 0x10000 then (SB_FULL, 0) else if d = 0x10080 \<or> d = 0x10100 then (SB_PARTIAL, 1) else (SB_FULL, 0))
     (\<lambda>d. if d = 0x10000 then \<lparr>desc = 0x10100, counter = 2\<rparr>
           else if d = 0x10100 then \<lparr>desc = 0x10080, counter = 1\<rparr> else \<lparr>desc = nullptr, counter = 0\<rparr>)
     \<lparr>desc = 0x10100, counter = 1\<rparr> nullptr"
    using b by (simp add: aba_ok_def)
  note c = other_malloc_ok [where x = "0x10100" and sb = "0x400000", OF b']
  have c': "aba_ok (other_malloc aba_platform 4096 (other_malloc aba_platform 4096 (aba_free_resumed aba_before)))
     (\<lambda>d. if d = 0x10080 then (SB_PARTIAL, 1) else (SB_FULL, 0))
     (\<lambda>d. if d = 0x10000 then \<lparr>desc = 0x10100, counter = 2\<rparr>
           else if d = 0x10100 then \<lparr>desc = 0x10080, counter = 1\<rparr> else \<lparr>desc = nullptr, counter = 0\<rparr>)
     \<lparr>desc = 0x10080, counter = 1\<rparr> nullptr"
    using c by (simp add: aba_ok_def)
  note d = other_malloc_ok [where x = "0x10080" and sb = "0x300000", OF c']
  have d': "aba_ok (other_malloc aba_platform 4096 (other_malloc aba_platform 4096
                (other_malloc aba_platform 4096 (aba_free_resumed aba_before))))
     (\<lambda>d. (SB_FULL, 0))
     (\<lambda>d. if d = 0x10000 then \<lparr>desc = 0x10100, counter = 2\<rparr>
           else if d = 0x10100 then \<lparr>desc = 0x10080, counter = 1\<rparr> else \<lparr>desc = nullptr, counter = 0\<rparr>)
     \<lparr>desc = nullptr, counter = 1\<rparr> nullptr"
    using d by (simp add: aba_ok_def)
  note e = other_free_ok [where x = "0x10100" and sb = "0x400000" and p = "0x401000", OF d']
  show ?thesis
    unfolding aba_others_def using e by (simp add: aba_ok_def)
qed

text \<open>
  Claim C8 says that the anchor of every live small-class descriptor satisfies
  \<open>count \<le> maxcount - 1\<close> after every public operation, under any interleaving. The
  code breaks it in the following run of public operations. \<open>ListPushPartial\<close> builds
  \<open>newHead\<close> (with the counter of the head it first loaded, plus one) before its loop,
  and does not rebuild it when the compare-exchange fails, so a push that retries can
  lower the counter of the list head; a \<open>ListPopPartial\<close> of another thread then
  succeeds on a head it read long before.

  Six calls \<open>malloc(4096)\<close> fill three superblocks of two blocks (\<open>aba_machine\<close>).
  Thread 1 frees block 0 of \<open>0x200000\<close> and is stopped in \<open>ListPushPartial\<close> with
  \<open>newHead = {0x10000, 1}\<close>. Two threads free block 0 of \<open>0x300000\<close> and of
  \<open>0x400000\<close>: the head is \<open>{0x10100, 2}\<close>, linked to \<open>{0x10080, 1}\<close>. Thread 2 starts
  \<open>malloc(4096)\<close>, reads that head and its link in \<open>ListPopPartial\<close>, and is stopped
  before the compare-exchange. Thread 1 goes on: its compare-exchange fails, the retry
  succeeds, and the head is \<open>{0x10000, 1}\<close> (first conjunct: this is the run of
  \<open>free\<close> with the two other calls before its first compare-exchange). Three threads
  complete \<open>malloc(4096)\<close>: they pop \<open>0x10000\<close>, \<open>0x10100\<close> and \<open>0x10080\<close>, which
  are full again, and the head is \<open>{null, 1}\<close>. A thread frees block 1 of \<open>0x400000\<close>:
  the head is \<open>{0x10100, 2}\<close> again. Thread 2 goes on: its compare-exchange succeeds and
  puts \<open>{0x10080, 2}\<close> at the head, a descriptor in state \<open>SB_FULL\<close> with count 0. The
  next \<open>malloc(4096)\<close> pops it, and its reservation \<open>count - 1 - credits\<close> with
  \<open>credits = min(count - 1, 64) = 64\<close> leaves the count \<open>2^25 - 65\<close> in the anchor of
  descriptor \<open>0x10080\<close>, which is registered for its superblock and has
  \<open>maxcount = 2\<close>.
\<close>

theorem partial_list_aba_breaks_count_bound:
  "lr_free 0x200000 [Env id, Env id, Env id, Env id, Env (other_free 0x400000 \<circ> other_free 0x300000)]
       aba_machine = Some ([], aba_free_resumed aba_before) \<and>
   partialList (Heaps aba_before 1) = \<lparr>desc = 0x10100, counter = 2\<rparr> \<and>
   partialList (Heaps (aba_free_resumed aba_before) 1) = \<lparr>desc = 0x10000, counter = 1\<rparr> \<and>
   partialList (Heaps (aba_others aba_before) 1) = \<lparr>desc = 0x10100, counter = 2\<rparr> \<and>
   (\<exists>p s. lr_malloc aba_platform 4096 [Env id, Env id, Env id, Env aba_others] aba_before = Some (p, [], s) \<and>
      partialList (Heaps s 1) = \<lparr>desc = 0x10080, counter = 2\<rparr> \<and>
      state (anchor (descs s 0x10080)) = SB_FULL \<and> count (anchor (descs s 0x10080)) = 0 \<and>
      (\<exists>q s'. lr_malloc aba_platform 4096 [] s = Some (q, [], s') \<and>
         GetDescriptorForPtr 0x300000 s' = 0x10080 \<and>
         heap (descs s' 0x10080) = Some 1 \<and>
         maxcount (descs s' 0x10080) = 2 \<and>
         count (anchor (descs s' 0x10080)) = 33554367 \<and>
         maxcount (descs s' 0x10080) - 1 < ucast (count (anchor (descs s' 0x10080)))))"
proof -
  have q: "lr_free 0x200000 [Env id, Env id, Env id, Env id, Env (other_free 0x400000 \<circ> other_free 0x300000)]
       aba_machine = Some ([], aba_free_resumed aba_before)"
    using aba_free_run [OF aba_machine_ok, where G = "other_free 0x400000 \<circ> other_free 0x300000"] aba_before_ok
    by (simp add: aba_before_def aba_ok_def)
  have h1: "partialList (Heaps aba_before 1) = \<lparr>desc = 0x10100, counter = 2\<rparr>"
    using aba_before_ok by (simp add: aba_ok_def)
  have h2: "partialList (Heaps (aba_free_resumed aba_before) 1) = \<lparr>desc = 0x10000, counter = 1\<rparr>"
    using aba_free_resumed_ok [OF aba_before_ok] by (simp add: aba_ok_def)
  have h3: "partialList (Heaps (aba_others aba_before) 1) = \<lparr>desc = 0x10100, counter = 2\<rparr>"
    using aba_others_ok by (simp add: aba_ok_def)
  from aba_malloc_step [where es = "[Env id, Env id, Env id, Env aba_others]" and F = aba_others
        and x = "0x10100" and sb = "0x400000" and credits = 0,
        OF _ aba_before_ok _ _ aba_others_ok]
  obtain p s where t1: "lr_malloc aba_platform 4096 [Env id, Env id, Env id, Env aba_others] aba_before = Some (p, [], s)"
    and s: "aba_ok s (\<lambda>d. (SB_FULL, 0))
          (\<lambda>d. if d = 0x10000 then \<lparr>desc = 0x10100, counter = 2\<rparr>
           else if d = 0x10100 then \<lparr>desc = nullptr, counter = 1\<rparr>
           else \<lparr>desc = nullptr, counter = 0\<rparr>)
          \<lparr>desc = 0x10080, counter = 2\<rparr> nullptr"
    by (auto simp: aba_ok_def)
  have s2: "partialList (Heaps s 1) = \<lparr>desc = 0x10080, counter = 2\<rparr>"
    "state (anchor (descs s 0x10080)) = SB_FULL" "count (anchor (descs s 0x10080)) = 0"
    using s by (simp_all add: aba_ok_def aba_desc_ok_def)
  have "aba_ok (id s) (\<lambda>d. (SB_FULL, 0))
          (\<lambda>d. if d = 0x10000 then \<lparr>desc = 0x10100, counter = 2\<rparr>
           else if d = 0x10100 then \<lparr>desc = nullptr, counter = 1\<rparr>
           else \<lparr>desc = nullptr, counter = 0\<rparr>)
          \<lparr>desc = 0x10080, counter = 2\<rparr> nullptr"
    using s by simp
  from aba_malloc_step [where es = "[]" and F = id and x = "0x10080" and sb = "0x300000" and credits = 64
        and st = SB_FULL and c = 0, OF _ s _ _ this]
  obtain r s' where t5: "lr_malloc aba_platform 4096 [] s = Some (r, [], s')"
    and s': "aba_desc_ok s' 0x10080 0x300000 (SB_ACTIVE, 0 - 1 - 64) \<lparr>desc = nullptr, counter = 0\<rparr>"
    by (auto simp: aba_ok_def)
  have "GetDescriptorForPtr 0x300000 s' = 0x10080 \<and> heap (descs s' 0x10080) = Some 1 \<and>
        maxcount (descs s' 0x10080) = 2 \<and> count (anchor (descs s' 0x10080)) = 33554367 \<and>
        maxcount (descs s' 0x10080) - 1 < ucast (count (anchor (descs s' 0x10080)))"
    using s' by (simp add: aba_desc_ok_def GetDescriptorForPtr_def GetPageInfo_def LG_PAGE_def)
  with q h1 h2 h3 t1 t5 s2 show ?thesis by blast
qed
section \<open>calloc with a zero count\<close>

text \<open>
  Claim C9. For every size \<open>sz\<close>, \<open>calloc(0, sz)\<close> returns null although the product
  \<open>0 * sz\<close> does not overflow: it allocates nothing and leaves the state as it was,
  whatever the other threads do, exactly as a call whose product overflows (here
  \<open>2^63 * 2\<close>) does.
\<close>

theorem calloc_zero_count_returns_null:
  "lr_calloc P 0 sz es s = Some (nullptr, es, s) \<and>
   lr_calloc P 0 sz es s = lr_calloc P (push_bit 63 1) 2 es s"
  by (simp add: lr_calloc_def)

section \<open>realloc when the allocation fails\<close>




section \<open>UpdateActive when the compare-exchange fails\<close>

text \<open>
  Extra X1. When another thread changes \<open>heap.active\<close> between the load and the strong
  compare-exchange of \<open>UpdateActive(heap, desc, credits)\<close>, the install fails: the
  function adds the credits back to the count of the descriptor's anchor, sets its state
  to \<open>SB_PARTIAL\<close>, and pushes the descriptor on the partial list of its heap; the active
  descriptor stays the one the other thread installed.
\<close>

theorem UpdateActive_gives_credits_back:
  fixes f :: "machine \<Rightarrow> machine"
  assumes changed: "active (Heaps (f s) h) \<noteq> active (Heaps s h)"
    and own: "heap (descs (f s) d) = Some h"
  shows "\<exists>s'. UpdateActive h d credits [Env id, Env f] s = Some ([], s') \<and>
           active (Heaps s' h) = active (Heaps (f s) h) \<and>
           anchor (descs s' d) = (anchor (descs (f s) d))
              \<lparr>count := count (anchor (descs (f s) d)) + ucast credits, state := SB_PARTIAL\<rparr> \<and>
           partialList (Heaps s' h) = \<lparr>desc = d, counter = counter (partialList (Heaps (f s) h)) + 1\<rparr> \<and>
           nextPartial (descs s' d) = partialList (Heaps (f s) h)"
  using changed own
  by (simp add: UpdateActive_def UpdateActive_loop_quiet HeapPushPartial_def ListPushPartial_quiet
        upd_desc_def upd_heap_def)

text \<open>
  On the example machine where a thread holds 64 credits of \<open>0x10180\<close>: another thread
  installs \<open>(0x10000, 63)\<close>; the credits go back (count 36 + 64) and \<open>0x10180\<close> becomes
  the head of the partial list.
\<close>

theorem UpdateActive_gives_credits_back_witness:
  "active (Heaps (upd_heap 1 (\<lambda>x. x\<lparr>active := 0x1003F\<rparr>) ex_machine_reserved) 1) \<noteq>
     active (Heaps ex_machine_reserved 1) \<and>
   heap (descs (upd_heap 1 (\<lambda>x. x\<lparr>active := 0x1003F\<rparr>) ex_machine_reserved) 0x10180) = Some 1 \<and>
   (\<exists>s'. UpdateActive 1 0x10180 64 [Env id, Env (upd_heap 1 (\<lambda>x. x\<lparr>active := 0x1003F\<rparr>))]
             ex_machine_reserved = Some ([], s') \<and>
      active (Heaps s' 1) = 0x1003F \<and>
      anchor (descs s' 0x10180) = \<lparr>state = SB_PARTIAL, avail = 4, count = 100, tag = 8\<rparr> \<and>
      partialList (Heaps s' 1) = \<lparr>desc = 0x10180, counter = 1\<rparr> \<and>
      nextPartial (descs s' 0x10180) = \<lparr>desc = nullptr, counter = 0\<rparr>)"
  using UpdateActive_gives_credits_back [of "upd_heap 1 (\<lambda>x. x\<lparr>active := 0x1003F\<rparr>)" ex_machine_reserved 1 "0x10180" 64]
  by (simp add: upd_heap_def upd_desc_def ex_machine_reserved_def ex_machine_active_def ex_machine_def)

section \<open>free and the count of the anchor\<close>

lemma count_succ_le:
  assumes "(ucast (c :: 25 word) :: u64) \<le> m" "ucast c \<noteq> m"
  shows "(ucast (c + 1) :: u64) \<le> m"
proof -
  have lt: "unat c < unat m"
    using assms by (metis unat_ucast_25_64 word_le_nat_alt le_neq_implies_less word_unat_eq_iff)
  have "unat (c + 1) \<le> unat c + 1"
    by (metis unat_word_ariths(1) mod_less_eq_dividend unat_1 unsigned_1)
  hence "unat (ucast (c + 1) :: u64) \<le> unat m"
    using lt by (simp add: unat_ucast_25_64)
  thus ?thesis by (simp add: word_le_nat_alt)
qed

lemma lr_free_step_count_bound:
  assumes "ucast (count a) \<le> maxc - 1"
  shows "ucast (count (lr_free_step maxc idx a)) \<le> maxc - 1 \<and>
         (if ucast (count a) = maxc - 1
          then state (lr_free_step maxc idx a) = SB_EMPTY \<and> count (lr_free_step maxc idx a) = count a
          else count (lr_free_step maxc idx a) = count a + 1)"
  using assms count_succ_le [of "count a" "maxc - 1"]
  by (simp add: lr_free_step_def Let_def)

text \<open>
  Extra X2. A call of \<open>free\<close> on a small-class pointer that runs alone never increments
  the count of the anchor past \<open>maxcount - 1\<close>: when the count is \<open>maxcount - 1\<close> the
  anchor goes to state \<open>SB_EMPTY\<close> with its count unchanged, and otherwise the count is
  incremented by one and stays at most \<open>maxcount - 1\<close>.
\<close>

theorem free_keeps_count_bound:
  assumes "p \<noteq> nullptr" "GetDescriptorForPtr p s = d" "d \<noteq> nullptr" "heap (descs s d) = Some h"
    "blockSize (descs s d) \<noteq> 0"
    and bound: "ucast (count (anchor (descs s d))) \<le> maxcount (descs s d) - 1"
  shows "\<exists>s'. lr_free p [] s = Some ([], s') \<and>
           maxcount (descs s' d) = maxcount (descs s d) \<and>
           ucast (count (anchor (descs s' d))) \<le> maxcount (descs s' d) - 1 \<and>
           (if ucast (count (anchor (descs s d))) = maxcount (descs s d) - 1
            then state (anchor (descs s' d)) = SB_EMPTY \<and>
                 count (anchor (descs s' d)) = count (anchor (descs s d))
            else count (anchor (descs s' d)) = count (anchor (descs s d)) + 1)"
proof -
  let ?a = "lr_free_step (maxcount (descs s d)) ((p - superblock (descs s d)) div blockSize (descs s d))
              (anchor (descs s d))"
  let ?s2 = "upd_desc d (\<lambda>x. x\<lparr>anchor := ?a\<rparr>)
               (s\<lparr>mem := store64 (mem s)
                   (superblock (descs s d) + (p - superblock (descs s d)) div blockSize (descs s d) * blockSize (descs s d))
                   (ucast (avail (anchor (descs s d))))\<rparr>)"
  have h2: "heap (descs ?s2 d) = Some h"
    using assms(4) by (simp add: upd_desc_def)
  have push: "ListPushPartial d [] ?s2 =
      Some ([], upd_heap h (\<lambda>x. x\<lparr>partialList := \<lparr>desc = d, counter = counter (partialList (Heaps ?s2 h)) + 1\<rparr>\<rparr>)
                 (upd_desc d (\<lambda>x. x\<lparr>nextPartial := partialList (Heaps ?s2 h)\<rparr>) ?s2))"
    by (rule ListPushPartial_quiet [OF h2])
  have eq: "lr_free p [] s =
     (if state ?a = SB_EMPTY
      then Some ([], PageFree (superblock (descs s d)) (sbSize (sizeclass (Heaps s h)))
                       (UnregisterDesc (Some h) (superblock (descs s d)) ?s2))
      else if state (anchor (descs s d)) = SB_FULL then ListPushPartial d [] ?s2
      else Some ([], ?s2))"
    by (simp add: lr_free_small_quiet [OF assms(1-5)] Let_def HeapPushPartial_def)
  have "\<exists>s'. lr_free p [] s = Some ([], s') \<and> maxcount (descs s' d) = maxcount (descs s d) \<and>
          anchor (descs s' d) = ?a"
    unfolding eq push
    by (simp add: upd_desc_def upd_heap_def PageFree_def UnregisterDesc_def UpdatePageMap_eq)
  then obtain s' where s': "lr_free p [] s = Some ([], s')" "maxcount (descs s' d) = maxcount (descs s d)"
      "anchor (descs s' d) = ?a"
    by blast
  show ?thesis
    using s' lr_free_step_count_bound [OF bound] by auto
qed

text \<open>
  On the example machine whose superblock has one block outstanding (count 7 of 8): the
  free of that block leaves the count at 7 and the state \<open>SB_EMPTY\<close>.
\<close>

theorem free_keeps_count_bound_witness:
  "\<exists>s'. lr_free 0x200000 [] ex_machine_last_block = Some ([], s') \<and>
        maxcount (descs s' 0x10180) = 8 \<and>
        state (anchor (descs s' 0x10180)) = SB_EMPTY \<and>
        count (anchor (descs s' 0x10180)) = 7"
  using free_keeps_count_bound [of "0x200000" ex_machine_last_block "0x10180" 1]
  by (simp add: ex_machine_last_block_def ex_machine_def GetDescriptorForPtr_def GetPageInfo_def LG_PAGE_def) blast

section \<open>The reservation of MallocFromPartial\<close>

lemma reserve_count_below:
  assumes c: "(c :: 25 word) \<noteq> 0" and b: "(ucast c :: u64) \<le> maxc - 1" and m: "maxc \<noteq> 0"
  shows "(ucast (c - 1 - ucast (min (ucast c - 1) (64 :: u64))) :: u64) < maxc"
proof -
  have c0: "0 < unat c" using c by (simp add: unat_gt_0)
  have c25: "unat c < 2 ^ 25" using unsigned_less [of c, where 'a = nat] by simp
  have u1: "unat (ucast c - 1 :: u64) = unat c - 1"
    using c0 by (simp add: unat_sub_if' unat_ucast_25_64 word_le_nat_alt)
  have cr: "unat (min (ucast c - 1) (64 :: u64)) = min (unat c - 1) 64"
    using u1 by (simp add: min_def word_le_nat_alt)
  have crw: "unat (ucast (min (ucast c - 1) (64 :: u64)) :: 25 word) = min (unat c - 1) 64"
    using cr c25 by (simp add: unsigned_ucast_eq unsigned_take_bit_eq take_bit_nat_eq_self)
  have c1: "unat (c - 1) = unat c - 1"
    using c0 by (simp add: unat_sub_if' word_le_nat_alt)
  have n: "unat (c - 1 - ucast (min (ucast c - 1) (64 :: u64))) = unat c - 1 - min (unat c - 1) 64"
    using c1 crw by (simp add: unat_sub_if' word_le_nat_alt)
  have m1: "unat (maxc - 1) = unat maxc - 1"
    using m by (simp add: unat_sub_if' word_le_nat_alt unat_gt_0 Suc_leI)
  have "unat c \<le> unat maxc - 1"
    using b m1 by (simp add: word_le_nat_alt unat_ucast_25_64)
  hence "unat (c - 1 - ucast (min (ucast c - 1) (64 :: u64))) < unat maxc"
    using n c0 by simp
  thus ?thesis by (simp add: word_less_nat_alt unat_ucast_25_64)
qed

text \<open>
  Extra X3. When \<open>MallocFromPartial\<close> runs alone and pops a descriptor that is not
  \<open>SB_EMPTY\<close> and whose count is at least 1 and at most \<open>maxcount - 1\<close>, it leaves
  \<open>count - 1 - credits\<close> in the anchor, with \<open>credits = min(count - 1, CREDITS_MAX)\<close>,
  which is below \<open>maxcount\<close>.
\<close>

theorem MallocFromPartial_reservation_keeps_count_bound:
  assumes hd: "partialList (Heaps s h) = oh" "desc oh = d" "d \<noteq> nullptr"
    and own: "heap (descs s d) = Some h'"
    and st: "state (anchor (descs s d)) \<noteq> SB_EMPTY"
    and c: "count (anchor (descs s d)) \<noteq> 0"
    and b: "ucast (count (anchor (descs s d))) \<le> maxcount (descs s d) - 1" "maxcount (descs s d) \<noteq> 0"
  shows "\<exists>p s'. MallocFromPartial h [] s = Some (p, [], s') \<and>
           maxcount (descs s' d) = maxcount (descs s d) \<and>
           count (anchor (descs s' d)) =
             count (anchor (descs s d)) - 1 - ucast (min (ucast (count (anchor (descs s d))) - 1) CREDITS_MAX) \<and>
           ucast (count (anchor (descs s' d))) < maxcount (descs s' d)"
proof -
  note run = MallocFromPartial_run [where es = "[]" and s = s and h = h and oh = oh and h' = h'
      and ?s1.0 = s and ?s2.0 = s and ?s3.0 = s and ?es1.0 = "[]" and ?es2.0 = "[]"]
  have eq: "MallocFromPartial h [] s =
     (let s4 = upd_heap h (\<lambda>x. x\<lparr>partialList := (nextPartial (descs s d))\<lparr>counter := counter oh\<rparr>\<rparr>) s;
          (p, s') = after_pop h d s4
      in Some (p, [], s'))"
    using run hd own st by simp
  let ?s4 = "upd_heap h (\<lambda>x. x\<lparr>partialList := (nextPartial (descs s d))\<lparr>counter := counter oh\<rparr>\<rparr>) s"
  have a: "maxcount (descs (snd (after_pop h d ?s4)) d) = maxcount (descs s d)"
    "count (anchor (descs (snd (after_pop h d ?s4)) d)) =
       count (anchor (descs s d)) - 1 - ucast (min (ucast (count (anchor (descs s d))) - 1) CREDITS_MAX)"
    by (simp_all add: after_pop_def Let_def upd_heap_def upd_desc_def)
  have "ucast (count (anchor (descs (snd (after_pop h d ?s4)) d))) < maxcount (descs (snd (after_pop h d ?s4)) d)"
    unfolding a using reserve_count_below [OF c b] by (simp add: CREDITS_MAX_val)
  with a eq show ?thesis
    by (auto simp: Let_def split: prod.splits)
qed

text \<open>
  On the example machine whose partial list holds a descriptor with count 7 of 8: six
  credits are reserved and the count becomes 0.
\<close>

theorem MallocFromPartial_reservation_keeps_count_bound_witness:
  "\<exists>p s'. MallocFromPartial 1 [] ex_machine_last_block = Some (p, [], s') \<and>
        maxcount (descs s' 0x10180) = 8 \<and>
        count (anchor (descs s' 0x10180)) = 0"
  using MallocFromPartial_reservation_keeps_count_bound
          [of ex_machine_last_block 1 "\<lparr>desc = 0x10180, counter = 1\<rparr>" "0x10180" 1]
  by (simp add: ex_machine_last_block_def ex_machine_def CREDITS_MAX_val) blast

end
